theory Spec2Isabelle
  imports Main
begin

section \<open>The admission webhook of the VirtualMachine resource\<close>

text \<open>
  Source: \<^verbatim>\<open>neonvm/apis/neonvm/v1/virtualmachine_webhook.go\<close>, the functions
  \<^verbatim>\<open>ValidateCreate\<close>, \<^verbatim>\<open>ValidateUpdate\<close> and \<^verbatim>\<open>ValidateDelete\<close>.

  The file uses the resource types of its package without declaring them, and two
  helper methods of \<^verbatim>\<open>GuestSettings\<close> and one of \<^verbatim>\<open>Guest\<close> that live elsewhere.
  The model keeps what the webhook does with them:
  \<^item> the CPU and memory-slot counts are only compared with \<^verbatim>\<open><\<close> and \<^verbatim>\<open>></\<close>; their
    types are the parameters \<open>'c\<close> and \<open>'m\<close>, each of them a linear order;
  \<^item> values that the webhook only hands to \<^verbatim>\<open>reflect.DeepEqual\<close> (root disk, command,
    args, env, pod resources, the two flags, the init script, the payload of a disk or
    of a port, the swap fields) have the parameter type \<open>'o\<close>; deep equality of two
    such values is equality in HOL;
  \<^item> a pointer that may be nil is an \<open>option\<close>, and so is a slice, since
    \<^verbatim>\<open>reflect.DeepEqual\<close> tells a nil slice from an empty one;
  \<^item> \<^verbatim>\<open>ValidateForMemoryProvider\<close> and \<^verbatim>\<open>GetSwapInfo\<close> are arguments of the
    validators; their errors have the parameter type \<open>'e\<close>.
\<close>

subsection \<open>Resource types\<close>

text \<open>
  Modelled from the spec: the declarations of \<^verbatim>\<open>VirtualMachine\<close>, \<^verbatim>\<open>VirtualMachineSpec\<close>,
  \<^verbatim>\<open>Guest\<close>, \<^verbatim>\<open>CPUs\<close>, \<^verbatim>\<open>MemorySlots\<close>, \<^verbatim>\<open>Port\<close>, \<^verbatim>\<open>Disk\<close> and
  \<^verbatim>\<open>GuestSettings\<close> are not in the source file. The records below hold the fields the
  webhook reads, under the names it reads them by (prefixed where two structs share a
  field name or the name is a constant of HOL).
\<close>

record 'c CPUs =
  CPUs_Min :: 'c
  CPUs_Max :: 'c
  CPUs_Use :: 'c

record 'm MemorySlots =
  MemorySlots_Min :: 'm
  MemorySlots_Max :: 'm
  MemorySlots_Use :: 'm

record 'o Port =
  Port_Name :: string
  Port_rest :: 'o

record 'o Disk =
  Disk_Name :: string
  Disk_rest :: 'o

record 'o GuestSettings =
  Swap :: "'o option"
  SwapInfo :: "'o option"
  GuestSettings_rest :: 'o

record ('c, 'm, 'o) Guest =
  CPUs :: "'c CPUs"
  MemorySlots :: "'m MemorySlots"
  MemoryProvider :: "'o option"
  Ports :: "'o Port list option"
  RootDisk :: 'o
  Command :: 'o
  Args :: 'o
  Env :: 'o
  Settings :: "'o GuestSettings option"

record ('c, 'm, 'o) VirtualMachineSpec =
  Guest :: "('c, 'm, 'o) Guest"
  Disks :: "'o Disk list option"
  PodResources :: 'o
  EnableAcceleration :: 'o
  EnableSSH :: 'o
  InitScript :: 'o

record ('c, 'm, 'o) VirtualMachine =
  Spec :: "('c, 'm, 'o) VirtualMachineSpec"

text \<open>
  The argument \<^verbatim>\<open>old runtime.Object\<close> of \<^verbatim>\<open>ValidateUpdate\<close>: an interface value that
  holds a \<^verbatim>\<open>*VirtualMachine\<close>, or anything else (another type, or nil).
\<close>

datatype ('c, 'm, 'o) Object =
    IsVirtualMachine "('c, 'm, 'o) VirtualMachine"
  | OtherObject

text \<open>The elements a \<^verbatim>\<open>for ... range\<close> loop visits: none for a nil slice.\<close>

definition range_of :: "'a list option \<Rightarrow> 'a list" where
  "range_of s = (case s of None \<Rightarrow> [] | Some xs \<Rightarrow> xs)"

subsection \<open>Errors and results\<close>

text \<open>
  One constructor for each \<^verbatim>\<open>fmt.Errorf\<close> that formats numbers (the arguments are the
  formatted values, in the order of the call), \<open>ErrorText\<close> for the errors whose text is a
  constant or is built from strings only, \<open>SpecGuestError\<close> for
  \<^verbatim>\<open>fmt.Errorf(".spec.guest: %w", err)\<close> and \<open>Propagated\<close> for an error of
  \<^verbatim>\<open>GetSwapInfo\<close> handed on as it is.
\<close>

datatype ('c, 'm, 'e) error =
    CreateCpusUseBelowMin 'c 'c
  | CreateCpusUseAboveMax 'c 'c
  | SpecGuestError 'e
  | CreateMemorySlotsUseBelowMin 'm 'm
  | CreateMemorySlotsUseAboveMax 'm 'm
  | ErrorText string
  | Propagated 'e
  | UpdateCpusUseBelowMin 'c 'c
  | UpdateCpusUseAboveMax 'c 'c
  | UpdateMemorySlotsUseBelowMin 'm 'm
  | UpdateMemorySlotsUseAboveMax 'm 'm

text \<open>
  The pair \<^verbatim>\<open>(admission.Warnings, error)\<close> that every validator returns. The warnings
  are a slice of strings, \<open>None\<close> when nil; the error is \<open>None\<close> when nil.
\<close>

type_synonym ('c, 'm, 'e) result = "string list option \<times> ('c, 'm, 'e) error option"

text \<open>A call either returns or stops in a nil-pointer dereference.\<close>

datatype 'a outcome = Returns 'a | Panics

subsection \<open>ValidateCreate\<close>

text \<open>Lines 54 to 63: \<^verbatim>\<open>.spec.guest.cpus.use\<close> against min and max.\<close>

definition create_validate_cpus ::
  "('c::linorder, 'm, 'o) VirtualMachine \<Rightarrow> ('c, 'm, 'e) error option" where
  "create_validate_cpus r =
     (let c = CPUs (Guest (Spec r)) in
      if CPUs_Use c < CPUs_Min c then Some (CreateCpusUseBelowMin (CPUs_Use c) (CPUs_Min c))
      else if CPUs_Use c > CPUs_Max c then Some (CreateCpusUseAboveMax (CPUs_Use c) (CPUs_Max c))
      else None)"

text \<open>Lines 66 to 70: the memory provider, when there is one.\<close>

definition create_validate_memory_provider ::
  "(('c, 'm, 'o) Guest \<Rightarrow> 'o \<Rightarrow> 'e option) \<Rightarrow> ('c, 'm, 'o) VirtualMachine
     \<Rightarrow> ('c, 'm, 'e) error option" where
  "create_validate_memory_provider ValidateForMemoryProvider r =
     (case MemoryProvider (Guest (Spec r)) of
        None \<Rightarrow> None
      | Some p \<Rightarrow>
          (case ValidateForMemoryProvider (Guest (Spec r)) p of
             Some err \<Rightarrow> Some (SpecGuestError err)
           | None \<Rightarrow> None))"

text \<open>Lines 73 to 82: \<^verbatim>\<open>.spec.guest.memorySlots.use\<close> against min and max.\<close>

definition create_validate_memory_slots ::
  "('c, 'm::linorder, 'o) VirtualMachine \<Rightarrow> ('c, 'm, 'e) error option" where
  "create_validate_memory_slots r =
     (let m = MemorySlots (Guest (Spec r)) in
      if MemorySlots_Use m < MemorySlots_Min m
      then Some (CreateMemorySlotsUseBelowMin (MemorySlots_Use m) (MemorySlots_Min m))
      else if MemorySlots_Use m > MemorySlots_Max m
      then Some (CreateMemorySlotsUseAboveMax (MemorySlots_Use m) (MemorySlots_Max m))
      else None)"

text \<open>Lines 85 to 95.\<close>

definition reservedDiskNames :: "string list" where
  "reservedDiskNames =
     [''virtualmachineimages'',
      ''rootdisk'',
      ''runtime'',
      ''swapdisk'',
      ''sysfscgroup'',
      ''containerdsock'',
      ''ssh-privatekey'',
      ''ssh-publickey'',
      ''ssh-authorized-keys'']"

text \<open>
  Lines 97 to 102, the body of the loop over the disks. \<^verbatim>\<open>len\<close> of a Go string is its
  number of bytes, which is the length of a \<open>string\<close> of HOL; \<^verbatim>\<open>slices.Contains\<close> is
  membership. The character \<open>CHR 0x27\<close> is the single quote around the name in the two
  messages.
\<close>

definition validate_disk_name :: "'o Disk \<Rightarrow> ('c, 'm, 'e) error option" where
  "validate_disk_name disk =
     (if Disk_Name disk \<in> set reservedDiskNames
      then Some (ErrorText ([CHR 0x27] @ Disk_Name disk @ [CHR 0x27]
                   @ '' is reserved for .spec.disks[].name''))
      else if length (Disk_Name disk) > 32
      then Some (ErrorText (''disk name '' @ [CHR 0x27] @ Disk_Name disk @ [CHR 0x27]
                   @ '' too long, should be less than or equal to 32''))
      else None)"

text \<open>Lines 96 to 103: the loop, which returns at the first disk that fails.\<close>

fun validate_disk_names :: "'o Disk list \<Rightarrow> ('c, 'm, 'e) error option" where
  "validate_disk_names [] = None"
| "validate_disk_names (disk # disks) =
     (case validate_disk_name disk of
        Some err \<Rightarrow> Some err
      | None \<Rightarrow> validate_disk_names disks)"

text \<open>Lines 106 to 110: the loop over the ports.\<close>

fun validate_port_names :: "'o Port list \<Rightarrow> ('c, 'm, 'e) error option" where
  "validate_port_names [] = None"
| "validate_port_names (port # ports) =
     (if length (Port_Name port) \<noteq> 0 \<and> Port_Name port = ''qmp''
      then Some (ErrorText ([CHR 0x27] @ ''qmp'' @ [CHR 0x27]
                   @ '' is reserved name for .spec.guest.ports[].name''))
      else validate_port_names ports)"

text \<open>Lines 113 to 117: at most one kind of swap.\<close>

definition create_validate_swap ::
  "('c, 'm, 'o) VirtualMachine \<Rightarrow> ('c, 'm, 'e) error option" where
  "create_validate_swap r =
     (case Settings (Guest (Spec r)) of
        None \<Rightarrow> None
      | Some settings \<Rightarrow>
          (if Swap settings \<noteq> None \<and> SwapInfo settings \<noteq> None
           then Some (ErrorText ''cannot have both 'swap' and 'swapInfo' enabled'')
           else None))"

text \<open>
  The whole function: the checks in the order of the source, the first error returned,
  the warnings nil on every path.
\<close>

definition ValidateCreate ::
  "(('c::linorder, 'm::linorder, 'o) Guest \<Rightarrow> 'o \<Rightarrow> 'e option)
     \<Rightarrow> ('c, 'm, 'o) VirtualMachine \<Rightarrow> ('c, 'm, 'e) result" where
  "ValidateCreate ValidateForMemoryProvider r =
     (case create_validate_cpus r of
        Some err \<Rightarrow> (None, Some err)
      | None \<Rightarrow>
     (case create_validate_memory_provider ValidateForMemoryProvider r of
        Some err \<Rightarrow> (None, Some err)
      | None \<Rightarrow>
     (case create_validate_memory_slots r of
        Some err \<Rightarrow> (None, Some err)
      | None \<Rightarrow>
     (case validate_disk_names (range_of (Disks (Spec r))) of
        Some err \<Rightarrow> (None, Some err)
      | None \<Rightarrow>
     (case validate_port_names (range_of (Ports (Guest (Spec r)))) of
        Some err \<Rightarrow> (None, Some err)
      | None \<Rightarrow>
     (case create_validate_swap r of
        Some err \<Rightarrow> (None, Some err)
      | None \<Rightarrow> (None, None)))))))"

subsection \<open>ValidateUpdate\<close>

text \<open>
  What a getter of the table returns: a value of the interface type \<^verbatim>\<open>any\<close>, which
  carries its dynamic type. \<^verbatim>\<open>reflect.DeepEqual\<close> on two such values is equality of
  the model: values of different dynamic types are never equal, two pointers are equal
  when both are nil or both point to equal values, two slices when both are nil or both
  are non-nil with equal elements.
\<close>

datatype ('c, 'm, 'o) any =
    AnyCPU 'c
  | AnyMemorySlots 'm
  | AnyMemoryProvider "'o option"
  | AnyPorts "'o Port list option"
  | AnyOpaque 'o
  | AnySettings "'o GuestSettings option"
  | AnyDisks "'o Disk list option"

text \<open>
  Modelled from the spec: \<^verbatim>\<open>WithoutSwapFields\<close>, a method of \<^verbatim>\<open>GuestSettings\<close> that is
  not in the source file; the spec calls it a projection that strips \<^verbatim>\<open>Swap\<close> and
  \<^verbatim>\<open>SwapInfo\<close> before the comparison. It returns a settings object, never nil.
\<close>

definition WithoutSwapFields :: "'o GuestSettings \<Rightarrow> 'o GuestSettings" where
  "WithoutSwapFields s = s\<lparr>Swap := None, SwapInfo := None\<rparr>"

text \<open>Lines 144 to 152: the getter of \<^verbatim>\<open>.spec.guest.settings\<close>.\<close>

definition settings_getter :: "('c, 'm, 'o) VirtualMachine \<Rightarrow> ('c, 'm, 'o) any" where
  "settings_getter v =
     (case Settings (Guest (Spec v)) of
        None \<Rightarrow> AnySettings None
      | Some settings \<Rightarrow> AnySettings (Some (WithoutSwapFields settings)))"

text \<open>Lines 127 to 158: the table, in the order of the source.\<close>

definition immutableFields ::
  "(string \<times> (('c, 'm, 'o) VirtualMachine \<Rightarrow> ('c, 'm, 'o) any)) list" where
  "immutableFields =
     [(''.spec.guest.cpus.min'', \<lambda>v. AnyCPU (CPUs_Min (CPUs (Guest (Spec v))))),
      (''.spec.guest.cpus.max'', \<lambda>v. AnyCPU (CPUs_Max (CPUs (Guest (Spec v))))),
      (''.spec.guest.memorySlots.min'',
         \<lambda>v. AnyMemorySlots (MemorySlots_Min (MemorySlots (Guest (Spec v))))),
      (''.spec.guest.memorySlots.max'',
         \<lambda>v. AnyMemorySlots (MemorySlots_Max (MemorySlots (Guest (Spec v))))),
      (''.spec.guest.memoryProvider'', \<lambda>v. AnyMemoryProvider (MemoryProvider (Guest (Spec v)))),
      (''.spec.guest.ports'', \<lambda>v. AnyPorts (Ports (Guest (Spec v)))),
      (''.spec.guest.rootDisk'', \<lambda>v. AnyOpaque (RootDisk (Guest (Spec v)))),
      (''.spec.guest.command'', \<lambda>v. AnyOpaque (Command (Guest (Spec v)))),
      (''.spec.guest.args'', \<lambda>v. AnyOpaque (Args (Guest (Spec v)))),
      (''.spec.guest.env'', \<lambda>v. AnyOpaque (Env (Guest (Spec v)))),
      (''.spec.guest.settings'', settings_getter),
      (''.spec.disks'', \<lambda>v. AnyDisks (Disks (Spec v))),
      (''.spec.podResources'', \<lambda>v. AnyOpaque (PodResources (Spec v))),
      (''.spec.enableAcceleration'', \<lambda>v. AnyOpaque (EnableAcceleration (Spec v))),
      (''.spec.enableSSH'', \<lambda>v. AnyOpaque (EnableSSH (Spec v))),
      (''.spec.initScript'', \<lambda>v. AnyOpaque (InitScript (Spec v)))]"

text \<open>
  Lines 160 to 164: the loop over the table. \<open>beforeVM\<close> is the pointer \<^verbatim>\<open>before\<close>
  that the type assertion of line 125 leaves: \<open>None\<close> is nil. Every getter reads \<^verbatim>\<open>v.Spec\<close>, so
  with a nil \<open>before\<close> the first \<^verbatim>\<open>info.getter(before)\<close> dereferences nil.
\<close>

fun check_immutable ::
  "(string \<times> (('c, 'm, 'o) VirtualMachine \<Rightarrow> ('c, 'm, 'o) any)) list
     \<Rightarrow> ('c, 'm, 'o) VirtualMachine \<Rightarrow> ('c, 'm, 'o) VirtualMachine option
     \<Rightarrow> ('c, 'm, 'e) error option outcome" where
  "check_immutable [] r beforeVM = Returns None"
| "check_immutable ((fieldName, getter) # infos) r beforeVM =
     (case beforeVM of
        None \<Rightarrow> Panics
      | Some b \<Rightarrow>
          (if getter r \<noteq> getter b
           then Returns (Some (ErrorText (fieldName @ '' is immutable'')))
           else check_immutable infos r beforeVM))"

text \<open>
  Lines 175 to 188: the swap fields. \<^verbatim>\<open>GetSwapInfo\<close> is a method of \<^verbatim>\<open>GuestSettings\<close>
  that is not in the source file: it is the argument \<open>GetSwapInfo\<close>, which gives an error
  (\<open>Inl\<close>) or a swap descriptor (\<open>Inr\<close>) for a settings object. Line 180 calls it on the
  old settings without a test for nil; reading the fields of a nil settings object, or
  of a nil \<open>before\<close>, is a nil-pointer dereference.
\<close>

definition update_validate_swap ::
  "('o GuestSettings \<Rightarrow> 'e + 'd) \<Rightarrow> ('c, 'm, 'o) VirtualMachine
     \<Rightarrow> ('c, 'm, 'o) VirtualMachine option \<Rightarrow> ('c, 'm, 'e) error option outcome" where
  "update_validate_swap GetSwapInfo r beforeVM =
     (case Settings (Guest (Spec r)) of
        None \<Rightarrow> Returns None
      | Some newSettings \<Rightarrow>
          (case GetSwapInfo newSettings of
             Inl err \<Rightarrow> Returns (Some (Propagated err))
           | Inr newSwapInfo \<Rightarrow>
               (case beforeVM of
                  None \<Rightarrow> Panics
                | Some b \<Rightarrow>
                    (case Settings (Guest (Spec b)) of
                       None \<Rightarrow> Panics
                     | Some oldSettings \<Rightarrow>
                         (case GetSwapInfo oldSettings of
                            Inl err \<Rightarrow> Returns None
                          | Inr oldSwapInfo \<Rightarrow>
                              (if newSwapInfo \<noteq> oldSwapInfo
                               then Returns (Some (ErrorText
                                 ''.spec.guest.settings.{swap,swapInfo} is immutable''))
                               else Returns None))))))"

text \<open>Lines 191 to 200: \<^verbatim>\<open>.cpus.use\<close> of the new object against its min and max.\<close>

definition update_validate_cpus ::
  "('c::linorder, 'm, 'o) VirtualMachine \<Rightarrow> ('c, 'm, 'e) error option" where
  "update_validate_cpus r =
     (let c = CPUs (Guest (Spec r)) in
      if CPUs_Use c < CPUs_Min c then Some (UpdateCpusUseBelowMin (CPUs_Use c) (CPUs_Min c))
      else if CPUs_Use c > CPUs_Max c then Some (UpdateCpusUseAboveMax (CPUs_Use c) (CPUs_Max c))
      else None)"

text \<open>Lines 203 to 212: \<^verbatim>\<open>.memorySlots.use\<close> of the new object against its min and max.\<close>

definition update_validate_memory_slots ::
  "('c, 'm::linorder, 'o) VirtualMachine \<Rightarrow> ('c, 'm, 'e) error option" where
  "update_validate_memory_slots r =
     (let m = MemorySlots (Guest (Spec r)) in
      if MemorySlots_Use m < MemorySlots_Min m
      then Some (UpdateMemorySlotsUseBelowMin (MemorySlots_Use m) (MemorySlots_Min m))
      else if MemorySlots_Use m > MemorySlots_Max m
      then Some (UpdateMemorySlotsUseAboveMax (MemorySlots_Use m) (MemorySlots_Max m))
      else None)"

text \<open>
  The whole function. Line 125 drops the flag of the type assertion, so \<open>before\<close> is nil
  when \<open>old\<close> is not a \<^verbatim>\<open>*VirtualMachine\<close>.
\<close>

definition ValidateUpdate ::
  "('o GuestSettings \<Rightarrow> 'e + 'd) \<Rightarrow> ('c::linorder, 'm::linorder, 'o) VirtualMachine
     \<Rightarrow> ('c, 'm, 'o) Object \<Rightarrow> ('c, 'm, 'e) result outcome" where
  "ValidateUpdate GetSwapInfo r old =
     (let beforeVM = (case old of IsVirtualMachine b \<Rightarrow> Some b | OtherObject \<Rightarrow> None) in
      case check_immutable immutableFields r beforeVM of
        Panics \<Rightarrow> Panics
      | Returns (Some err) \<Rightarrow> Returns (None, Some err)
      | Returns None \<Rightarrow>
     (case update_validate_swap GetSwapInfo r beforeVM of
        Panics \<Rightarrow> Panics
      | Returns (Some err) \<Rightarrow> Returns (None, Some err)
      | Returns None \<Rightarrow>
     (case update_validate_cpus r of
        Some err \<Rightarrow> Returns (None, Some err)
      | None \<Rightarrow>
     (case update_validate_memory_slots r of
        Some err \<Rightarrow> Returns (None, Some err)
      | None \<Rightarrow> Returns (None, None)))))"

subsection \<open>ValidateDelete\<close>

text \<open>Lines 218 to 221: nothing is validated.\<close>

definition ValidateDelete :: "('c, 'm, 'o) VirtualMachine \<Rightarrow> ('c, 'm, 'e) result" where
  "ValidateDelete r = (None, None)"

subsection \<open>Sample objects\<close>

text \<open>
  Concrete objects on which the theorems below are instantiated: the counts are
  integers, the opaque values and the collaborators' errors are strings.
\<close>

definition sample_vm :: "(int, int, string) VirtualMachine" where
  "sample_vm =
     \<lparr>Spec =
        \<lparr>Guest =
           \<lparr>CPUs = \<lparr>CPUs_Min = 1, CPUs_Max = 4, CPUs_Use = 2\<rparr>,
            MemorySlots = \<lparr>MemorySlots_Min = 1, MemorySlots_Max = 4, MemorySlots_Use = 2\<rparr>,
            MemoryProvider = None,
            Ports = None,
            RootDisk = ''image'',
            Command = ''cmd'',
            Args = ''args'',
            Env = ''env'',
            Settings = None\<rparr>,
         Disks = None,
         PodResources = ''resources'',
         EnableAcceleration = ''true'',
         EnableSSH = ''true'',
         InitScript = ''init''\<rparr>\<rparr>"

text \<open>Updates of single fields of an object, for the statements and the samples.\<close>

definition with_cpus ::
  "'c CPUs \<Rightarrow> ('c, 'm, 'o) VirtualMachine \<Rightarrow> ('c, 'm, 'o) VirtualMachine" where
  "with_cpus c v = v\<lparr>Spec := (Spec v)\<lparr>Guest := (Guest (Spec v))\<lparr>CPUs := c\<rparr>\<rparr>\<rparr>"

definition with_cpus_use ::
  "'c \<Rightarrow> ('c, 'm, 'o) VirtualMachine \<Rightarrow> ('c, 'm, 'o) VirtualMachine" where
  "with_cpus_use u v = with_cpus ((CPUs (Guest (Spec v)))\<lparr>CPUs_Use := u\<rparr>) v"

definition with_memory_slots ::
  "'m MemorySlots \<Rightarrow> ('c, 'm, 'o) VirtualMachine \<Rightarrow> ('c, 'm, 'o) VirtualMachine" where
  "with_memory_slots m v = v\<lparr>Spec := (Spec v)\<lparr>Guest := (Guest (Spec v))\<lparr>MemorySlots := m\<rparr>\<rparr>\<rparr>"

definition with_memory_provider ::
  "'o option \<Rightarrow> ('c, 'm, 'o) VirtualMachine \<Rightarrow> ('c, 'm, 'o) VirtualMachine" where
  "with_memory_provider p v =
     v\<lparr>Spec := (Spec v)\<lparr>Guest := (Guest (Spec v))\<lparr>MemoryProvider := p\<rparr>\<rparr>\<rparr>"

definition with_settings ::
  "'o GuestSettings option \<Rightarrow> ('c, 'm, 'o) VirtualMachine \<Rightarrow> ('c, 'm, 'o) VirtualMachine" where
  "with_settings s v = v\<lparr>Spec := (Spec v)\<lparr>Guest := (Guest (Spec v))\<lparr>Settings := s\<rparr>\<rparr>\<rparr>"

definition with_disks ::
  "'o Disk list option \<Rightarrow> ('c, 'm, 'o) VirtualMachine \<Rightarrow> ('c, 'm, 'o) VirtualMachine" where
  "with_disks ds v = v\<lparr>Spec := (Spec v)\<lparr>Disks := ds\<rparr>\<rparr>"

text \<open>
  Modelled from the spec: \<^verbatim>\<open>GetSwapInfo\<close> is not in the source file. The spec says that
  the derivation fails on conflicting legacy and structured swap fields and otherwise
  gives the descriptor derived from the field that is set. This sample follows that,
  with a legacy size standing for its own descriptor; the theorems hold for every
  derivation, and the sample only instantiates them.
\<close>

definition sample_GetSwapInfo :: "string GuestSettings \<Rightarrow> string + string option" where
  "sample_GetSwapInfo s =
     (if Swap s \<noteq> None \<and> SwapInfo s \<noteq> None
      then Inl ''conflicting swap fields''
      else if Swap s \<noteq> None then Inr (Swap s)
      else Inr (SwapInfo s))"

text \<open>
  Guest settings for the samples: only the structured swap field set, the same with
  another value, and both swap fields set.
\<close>

definition sample_settings :: "string GuestSettings" where
  "sample_settings = \<lparr>Swap = None, SwapInfo = Some ''1Gi'', GuestSettings_rest = ''sysctl''\<rparr>"

definition sample_settings_other :: "string GuestSettings" where
  "sample_settings_other =
     \<lparr>Swap = None, SwapInfo = Some ''2Gi'', GuestSettings_rest = ''sysctl''\<rparr>"

definition sample_settings_conflict :: "string GuestSettings" where
  "sample_settings_conflict =
     \<lparr>Swap = Some ''1Gi'', SwapInfo = Some ''1Gi'', GuestSettings_rest = ''sysctl''\<rparr>"

text \<open>A memory-provider check that accepts every guest, for the samples.\<close>

definition sample_ValidateForMemoryProvider ::
  "(int, int, string) Guest \<Rightarrow> string \<Rightarrow> string option" where
  "sample_ValidateForMemoryProvider g p = None"

text \<open>
  The spec counts the length of a disk name in characters. A Go string is a sequence
  of bytes, in UTF-8 when it is text, and a character is one code point: a byte that
  starts a code point is any byte outside \<open>0x80\<close> to \<open>0xBF\<close>, the continuation bytes.
  This count follows the spec's words; the source never computes it.
\<close>

definition utf8_characters :: "string \<Rightarrow> nat" where
  "utf8_characters s =
     length (filter (\<lambda>c. \<not> (128 \<le> (of_char c :: nat) \<and> (of_char c :: nat) < 192)) s)"

text \<open>
  A name of 32 characters that are not ASCII: 32 times the letter e with an acute
  accent, which is the two bytes \<open>0xC3 0xA9\<close> in UTF-8.
\<close>

definition sample_name_32_characters :: string where
  "sample_name_32_characters = concat (replicate 32 [CHR 0xC3, CHR 0xA9])"

section \<open>Properties\<close>

subsection \<open>The loop over the table of immutable fields\<close>

lemma check_immutable_find:
  "check_immutable tbl r (Some b) =
     (case find (\<lambda>(n, g). g r \<noteq> g b) tbl of
        None \<Rightarrow> Returns None
      | Some (n, g) \<Rightarrow> Returns (Some (ErrorText (n @ '' is immutable''))))"
  by (induction tbl) auto

lemma check_immutable_nil:
  "tbl \<noteq> [] \<Longrightarrow> check_immutable tbl r None = Panics"
  by (cases tbl) auto

lemma check_immutable_returns: "check_immutable tbl r (Some b) \<noteq> Panics"
  by (simp add: check_immutable_find split: option.split)

lemma check_immutable_passed:
  "check_immutable tbl r (Some b) = Returns None \<Longrightarrow> (n, g) \<in> set tbl \<Longrightarrow> g r = g b"
  by (induction tbl) (auto split: if_splits)

lemma check_immutable_same: "check_immutable tbl v (Some v) = Returns None"
  by (induction tbl) auto

lemma immutableFields_not_empty: "immutableFields \<noteq> []"
  by (simp add: immutableFields_def)

lemma settings_in_table: "(''.spec.guest.settings'', settings_getter) \<in> set immutableFields"
  by (simp add: immutableFields_def)

lemma settings_getter_nil:
  "settings_getter r = settings_getter b \<Longrightarrow>
     (Settings (Guest (Spec r)) = None) = (Settings (Guest (Spec b)) = None)"
  by (auto simp: settings_getter_def split: option.splits)

lemma passed_old_settings:
  assumes "check_immutable immutableFields r (Some b) = Returns None"
    and "Settings (Guest (Spec r)) = Some newSettings"
  shows "\<exists>oldSettings. Settings (Guest (Spec b)) = Some oldSettings"
proof -
  have "settings_getter r = settings_getter b"
    using assms(1) settings_in_table by (rule check_immutable_passed)
  then have "Settings (Guest (Spec b)) \<noteq> None"
    using assms(2) settings_getter_nil [of r b] by simp
  then show ?thesis by blast
qed

subsection \<open>The swap step and the steps after it\<close>

lemma update_validate_swap_returns:
  assumes "check_immutable immutableFields r (Some b) = Returns None"
  shows "update_validate_swap GetSwapInfo r (Some b) \<noteq> Panics"
proof (cases "Settings (Guest (Spec r))")
  case None
  then show ?thesis by (simp add: update_validate_swap_def)
next
  case (Some newSettings)
  with assms obtain oldSettings where "Settings (Guest (Spec b)) = Some oldSettings"
    using passed_old_settings by blast
  with Some show ?thesis
    by (simp add: update_validate_swap_def split: sum.split)
qed

lemma ValidateUpdate_steps:
  "ValidateUpdate GetSwapInfo r (IsVirtualMachine b) =
     (case check_immutable immutableFields r (Some b) of
        Panics \<Rightarrow> Panics
      | Returns (Some err) \<Rightarrow> Returns (None, Some err)
      | Returns None \<Rightarrow>
          (case update_validate_swap GetSwapInfo r (Some b) of
             Panics \<Rightarrow> Panics
           | Returns (Some err) \<Rightarrow> Returns (None, Some err)
           | Returns None \<Rightarrow>
               (case update_validate_cpus r of
                  Some err \<Rightarrow> Returns (None, Some err)
                | None \<Rightarrow>
                    (case update_validate_memory_slots r of
                       Some err \<Rightarrow> Returns (None, Some err)
                     | None \<Rightarrow> Returns (None, None)))))"
  by (simp add: ValidateUpdate_def Let_def)

lemma ValidateUpdate_returns:
  fixes GetSwapInfo :: "'o GuestSettings \<Rightarrow> 'e + 'd"
    and r :: "('c::linorder, 'm::linorder, 'o) VirtualMachine"
  shows "\<exists>err. ValidateUpdate GetSwapInfo r (IsVirtualMachine b) = Returns (None, err)"
proof (cases "check_immutable immutableFields r (Some b) :: ('c, 'm, 'e) error option outcome")
  case Panics
  then show ?thesis by (simp add: check_immutable_returns)
next
  case (Returns res)
  show ?thesis
  proof (cases res)
    case (Some err)
    with Returns show ?thesis by (simp add: ValidateUpdate_steps)
  next
    case None
    with Returns have "update_validate_swap GetSwapInfo r (Some b) \<noteq> Panics"
      by (simp add: update_validate_swap_returns)
    with Returns None show ?thesis
      by (simp add: ValidateUpdate_steps split: outcome.split option.split)
  qed
qed

lemma ValidateUpdate_other: "ValidateUpdate GetSwapInfo r OtherObject = Panics"
  by (simp add: ValidateUpdate_def Let_def check_immutable_nil immutableFields_not_empty)

lemma ValidateCreate_warnings: "fst (ValidateCreate V r) = None"
  by (simp add: ValidateCreate_def split: option.split)

subsection \<open>Claims\<close>

text \<open>
  C10. \<^verbatim>\<open>ValidateUpdate\<close> drops the flag of the type assertion on \<open>old\<close>. When \<open>old\<close> is
  not a \<^verbatim>\<open>*VirtualMachine\<close>, \<open>before\<close> is nil and the first getter of the table applied
  to it dereferences nil: the loop over the table panics, and so does the call, which
  returns neither an error nor anything else.
\<close>

theorem ValidateUpdate_old_not_a_VirtualMachine:
  "check_immutable immutableFields r None = Panics
   \<and> ValidateUpdate GetSwapInfo r OtherObject = Panics
   \<and> ValidateUpdate GetSwapInfo r OtherObject \<noteq> Returns res"
  by (simp add: ValidateUpdate_other check_immutable_nil immutableFields_not_empty)

text \<open>
  C9, as stated, fails on one input: when \<open>old\<close> is not a \<^verbatim>\<open>*VirtualMachine\<close>,
  \<^verbatim>\<open>ValidateUpdate\<close> panics at the first getter of the table and returns nothing,
  so it returns no warnings value either.
\<close>

theorem warnings_counterexample:
  "ValidateUpdate sample_GetSwapInfo sample_vm OtherObject = Panics
   \<and> ValidateUpdate sample_GetSwapInfo sample_vm OtherObject \<noteq> Returns (None, None)"
  by (simp add: ValidateUpdate_other)

text \<open>
  C9, amended. The warnings are nil wherever a validator returns: \<^verbatim>\<open>ValidateCreate\<close>
  and \<^verbatim>\<open>ValidateDelete\<close> return on every input, with nil warnings;
  \<^verbatim>\<open>ValidateUpdate\<close> returns for every old object that is a \<^verbatim>\<open>*VirtualMachine\<close>,
  on the accepting and on every rejecting path, with nil warnings; and whatever
  \<^verbatim>\<open>ValidateUpdate\<close> returns, for any old object, has nil warnings.
\<close>

theorem warnings_always_nil:
  fixes GetSwapInfo :: "'o GuestSettings \<Rightarrow> 'e + 'd"
    and r :: "('c::linorder, 'm::linorder, 'o) VirtualMachine"
  shows
  "fst (ValidateCreate ValidateForMemoryProvider r) = None
   \<and> fst (ValidateDelete r :: ('c, 'm, 'e) result) = None
   \<and> (\<exists>err. ValidateUpdate GetSwapInfo r (IsVirtualMachine b) = Returns (None, err))
   \<and> (\<forall>old w err. ValidateUpdate GetSwapInfo r old = Returns (w, err) \<longrightarrow> w = None)"
proof -
  have "w = None" if "ValidateUpdate GetSwapInfo r old = Returns (w, err)" for old w err
  proof (cases old)
    case (IsVirtualMachine b')
    then show ?thesis
      using that ValidateUpdate_returns [of GetSwapInfo r b'] by auto
  next
    case OtherObject
    then show ?thesis
      using that by (simp add: ValidateUpdate_other)
  qed
  then show ?thesis
    using ValidateUpdate_returns [of GetSwapInfo r b]
    by (simp add: ValidateCreate_warnings ValidateDelete_def)
qed

theorem warnings_always_nil_witness:
  "ValidateUpdate sample_GetSwapInfo (with_cpus_use 9 sample_vm) (IsVirtualMachine sample_vm)
     = Returns (None, Some (UpdateCpusUseAboveMax 9 4))
   \<and> fst (ValidateCreate sample_ValidateForMemoryProvider (with_cpus_use 9 sample_vm)) = None"
proof -
  have run: "ValidateUpdate sample_GetSwapInfo (with_cpus_use 9 sample_vm)
               (IsVirtualMachine sample_vm) = Returns (None, Some (UpdateCpusUseAboveMax 9 4))"
    by code_simp
  show ?thesis
    using warnings_always_nil
      [of sample_ValidateForMemoryProvider "with_cpus_use 9 sample_vm" sample_GetSwapInfo sample_vm]
      run
    by simp
qed

subsection \<open>The range checks\<close>

lemma create_validate_cpus_None:
  "(create_validate_cpus r = None) =
     (CPUs_Min (CPUs (Guest (Spec r))) \<le> CPUs_Use (CPUs (Guest (Spec r)))
      \<and> CPUs_Use (CPUs (Guest (Spec r))) \<le> CPUs_Max (CPUs (Guest (Spec r))))"
  by (auto simp: create_validate_cpus_def Let_def)

lemma update_validate_cpus_None:
  "(update_validate_cpus r = None) =
     (CPUs_Min (CPUs (Guest (Spec r))) \<le> CPUs_Use (CPUs (Guest (Spec r)))
      \<and> CPUs_Use (CPUs (Guest (Spec r))) \<le> CPUs_Max (CPUs (Guest (Spec r))))"
  by (auto simp: update_validate_cpus_def Let_def)

lemma create_validate_memory_slots_None:
  "(create_validate_memory_slots r = None) =
     (MemorySlots_Min (MemorySlots (Guest (Spec r))) \<le> MemorySlots_Use (MemorySlots (Guest (Spec r)))
      \<and> MemorySlots_Use (MemorySlots (Guest (Spec r)))
            \<le> MemorySlots_Max (MemorySlots (Guest (Spec r))))"
  by (auto simp: create_validate_memory_slots_def Let_def)

lemma update_validate_memory_slots_None:
  "(update_validate_memory_slots r = None) =
     (MemorySlots_Min (MemorySlots (Guest (Spec r))) \<le> MemorySlots_Use (MemorySlots (Guest (Spec r)))
      \<and> MemorySlots_Use (MemorySlots (Guest (Spec r)))
            \<le> MemorySlots_Max (MemorySlots (Guest (Spec r))))"
  by (auto simp: update_validate_memory_slots_def Let_def)

lemma CPUs_with_cpus [simp]: "CPUs (Guest (Spec (with_cpus c v))) = c"
  by (simp add: with_cpus_def)

lemma MemorySlots_with_memory_slots [simp]:
  "MemorySlots (Guest (Spec (with_memory_slots m v))) = m"
  by (simp add: with_memory_slots_def)

lemma ValidateCreate_accepts_ranges:
  assumes "snd (ValidateCreate V r) = None"
  shows "CPUs_Min (CPUs (Guest (Spec r))) \<le> CPUs_Use (CPUs (Guest (Spec r)))
      \<and> CPUs_Use (CPUs (Guest (Spec r))) \<le> CPUs_Max (CPUs (Guest (Spec r)))
      \<and> MemorySlots_Min (MemorySlots (Guest (Spec r))) \<le> MemorySlots_Use (MemorySlots (Guest (Spec r)))
      \<and> MemorySlots_Use (MemorySlots (Guest (Spec r)))
            \<le> MemorySlots_Max (MemorySlots (Guest (Spec r)))"
  using assms
  by (auto simp: ValidateCreate_def create_validate_cpus_def create_validate_memory_slots_def
      Let_def split: option.splits if_splits)

lemma ValidateUpdate_accepts_ranges:
  assumes "ValidateUpdate GetSwapInfo r old = Returns (w, None)"
  shows "CPUs_Min (CPUs (Guest (Spec r))) \<le> CPUs_Use (CPUs (Guest (Spec r)))
      \<and> CPUs_Use (CPUs (Guest (Spec r))) \<le> CPUs_Max (CPUs (Guest (Spec r)))
      \<and> MemorySlots_Min (MemorySlots (Guest (Spec r))) \<le> MemorySlots_Use (MemorySlots (Guest (Spec r)))
      \<and> MemorySlots_Use (MemorySlots (Guest (Spec r)))
            \<le> MemorySlots_Max (MemorySlots (Guest (Spec r)))"
proof (cases old)
  case OtherObject
  with assms show ?thesis by (simp add: ValidateUpdate_other)
next
  case (IsVirtualMachine b)
  with assms show ?thesis
    by (auto simp: ValidateUpdate_steps update_validate_cpus_def
        update_validate_memory_slots_def Let_def split: option.splits outcome.splits if_splits)
qed

text \<open>
  C4. For every triple \<open>(min, use, max)\<close>, put into any object, each of the four range
  checks (CPUs and memory slots, at creation and at the end of an update, on the
  object being validated) accepts exactly when \<open>min \<le> use \<le> max\<close>, both bounds
  included. This needs no \<open>min \<le> max\<close>. A validator that accepts has passed both of
  its range checks. On integer counts, \<open>use = min - 1\<close> and \<open>use = max + 1\<close> are
  rejected by each check.
\<close>

theorem range_checks_inclusive:
  fixes v :: "('c::linorder, 'm::linorder, 'o) VirtualMachine"
    and vi :: "(int, int, 'o) VirtualMachine"
    and GetSwapInfo :: "'o GuestSettings \<Rightarrow> 'e + 'd"
  shows
  "((create_validate_cpus (with_cpus \<lparr>CPUs_Min = cmin, CPUs_Max = cmax, CPUs_Use = cuse\<rparr> v)
        :: ('c, 'm, 'e) error option) = None)
     = (cmin \<le> cuse \<and> cuse \<le> cmax)
   \<and> ((update_validate_cpus (with_cpus \<lparr>CPUs_Min = cmin, CPUs_Max = cmax, CPUs_Use = cuse\<rparr> v)
        :: ('c, 'm, 'e) error option) = None)
     = (cmin \<le> cuse \<and> cuse \<le> cmax)
   \<and> ((create_validate_memory_slots (with_memory_slots
          \<lparr>MemorySlots_Min = mmin, MemorySlots_Max = mmax, MemorySlots_Use = muse\<rparr> v)
        :: ('c, 'm, 'e) error option) = None)
     = (mmin \<le> muse \<and> muse \<le> mmax)
   \<and> ((update_validate_memory_slots (with_memory_slots
          \<lparr>MemorySlots_Min = mmin, MemorySlots_Max = mmax, MemorySlots_Use = muse\<rparr> v)
        :: ('c, 'm, 'e) error option) = None)
     = (mmin \<le> muse \<and> muse \<le> mmax)
   \<and> (snd (ValidateCreate ValidateForMemoryProvider v) = None \<longrightarrow>
        (create_validate_cpus v :: ('c, 'm, 'e) error option) = None
        \<and> (create_validate_memory_slots v :: ('c, 'm, 'e) error option) = None)
   \<and> (ValidateUpdate GetSwapInfo v old = Returns (w, None) \<longrightarrow>
        (update_validate_cpus v :: ('c, 'm, 'e) error option) = None
        \<and> (update_validate_memory_slots v :: ('c, 'm, 'e) error option) = None)
   \<and> (create_validate_cpus (with_cpus \<lparr>CPUs_Min = i, CPUs_Max = j, CPUs_Use = i - 1\<rparr> vi)
        :: (int, int, 'e) error option) \<noteq> None
   \<and> (create_validate_cpus (with_cpus \<lparr>CPUs_Min = i, CPUs_Max = j, CPUs_Use = j + 1\<rparr> vi)
        :: (int, int, 'e) error option) \<noteq> None
   \<and> (update_validate_cpus (with_cpus \<lparr>CPUs_Min = i, CPUs_Max = j, CPUs_Use = i - 1\<rparr> vi)
        :: (int, int, 'e) error option) \<noteq> None
   \<and> (update_validate_cpus (with_cpus \<lparr>CPUs_Min = i, CPUs_Max = j, CPUs_Use = j + 1\<rparr> vi)
        :: (int, int, 'e) error option) \<noteq> None
   \<and> (create_validate_memory_slots (with_memory_slots
          \<lparr>MemorySlots_Min = i, MemorySlots_Max = j, MemorySlots_Use = i - 1\<rparr> vi)
        :: (int, int, 'e) error option) \<noteq> None
   \<and> (create_validate_memory_slots (with_memory_slots
          \<lparr>MemorySlots_Min = i, MemorySlots_Max = j, MemorySlots_Use = j + 1\<rparr> vi)
        :: (int, int, 'e) error option) \<noteq> None
   \<and> (update_validate_memory_slots (with_memory_slots
          \<lparr>MemorySlots_Min = i, MemorySlots_Max = j, MemorySlots_Use = i - 1\<rparr> vi)
        :: (int, int, 'e) error option) \<noteq> None
   \<and> (update_validate_memory_slots (with_memory_slots
          \<lparr>MemorySlots_Min = i, MemorySlots_Max = j, MemorySlots_Use = j + 1\<rparr> vi)
        :: (int, int, 'e) error option) \<noteq> None"
proof -
  have create: "snd (ValidateCreate ValidateForMemoryProvider v) = None \<longrightarrow>
        (create_validate_cpus v :: ('c, 'm, 'e) error option) = None
        \<and> (create_validate_memory_slots v :: ('c, 'm, 'e) error option) = None"
    using ValidateCreate_accepts_ranges [of ValidateForMemoryProvider v]
    by (simp add: create_validate_cpus_None create_validate_memory_slots_None)
  have update: "ValidateUpdate GetSwapInfo v old = Returns (w, None) \<longrightarrow>
        (update_validate_cpus v :: ('c, 'm, 'e) error option) = None
        \<and> (update_validate_memory_slots v :: ('c, 'm, 'e) error option) = None"
    using ValidateUpdate_accepts_ranges [of GetSwapInfo v old w]
    by (simp add: update_validate_cpus_None update_validate_memory_slots_None)
  show ?thesis
    using create update
    by (simp add: create_validate_cpus_None update_validate_cpus_None
        create_validate_memory_slots_None update_validate_memory_slots_None)
qed

theorem range_checks_inclusive_witness:
  "snd (ValidateCreate sample_ValidateForMemoryProvider sample_vm) = None
   \<and> ValidateUpdate sample_GetSwapInfo sample_vm (IsVirtualMachine sample_vm)
       = Returns (None, None)
   \<and> (create_validate_cpus sample_vm :: (int, int, string) error option) = None
   \<and> (create_validate_memory_slots sample_vm :: (int, int, string) error option) = None
   \<and> (update_validate_cpus sample_vm :: (int, int, string) error option) = None
   \<and> (update_validate_memory_slots sample_vm :: (int, int, string) error option) = None
   \<and> (create_validate_cpus (with_cpus \<lparr>CPUs_Min = 1, CPUs_Max = 4, CPUs_Use = 0\<rparr> sample_vm)
        :: (int, int, string) error option) \<noteq> None
   \<and> (update_validate_memory_slots (with_memory_slots
          \<lparr>MemorySlots_Min = 1, MemorySlots_Max = 4, MemorySlots_Use = 5\<rparr> sample_vm)
        :: (int, int, string) error option) \<noteq> None"
proof -
  have create: "snd (ValidateCreate sample_ValidateForMemoryProvider sample_vm) = None"
    by code_simp
  have update: "ValidateUpdate sample_GetSwapInfo sample_vm (IsVirtualMachine sample_vm)
                  = Returns (None, None)"
    by code_simp
  show ?thesis
    using create update
      range_checks_inclusive [where v = sample_vm and vi = sample_vm
        and ValidateForMemoryProvider = sample_ValidateForMemoryProvider
        and GetSwapInfo = sample_GetSwapInfo and old = "IsVirtualMachine sample_vm"
        and w = None and i = 1 and j = 4]
    by simp
qed

text \<open>
  C6. When the loop over the table has returned no error and the settings of the new
  object are not nil, the settings of the old object are not nil either: the getter
  of \<^verbatim>\<open>.spec.guest.settings\<close> gives a nil pointer for nil settings and a settings
  object otherwise, and the two are never deeply equal. So line 180 never calls
  \<^verbatim>\<open>GetSwapInfo\<close> on nil settings: neither the swap step nor the call panics.
\<close>

theorem old_settings_not_nil_at_swap_step:
  fixes GetSwapInfo :: "'o GuestSettings \<Rightarrow> 'e + 'd"
    and r :: "('c::linorder, 'm::linorder, 'o) VirtualMachine"
  assumes "(check_immutable immutableFields r (Some b) :: ('c, 'm, 'e) error option outcome)
             = Returns None"
    and "Settings (Guest (Spec r)) \<noteq> None"
  shows "Settings (Guest (Spec b)) \<noteq> None
     \<and> settings_getter r = settings_getter b
     \<and> settings_getter r \<noteq> AnySettings None
     \<and> update_validate_swap GetSwapInfo r (Some b) \<noteq> Panics
     \<and> ValidateUpdate GetSwapInfo r (IsVirtualMachine b) \<noteq> Panics"
proof -
  have same: "settings_getter r = settings_getter b"
    using assms(1) settings_in_table by (rule check_immutable_passed)
  then have old: "Settings (Guest (Spec b)) \<noteq> None"
    using assms(2) settings_getter_nil [of r b] by simp
  have new: "settings_getter r \<noteq> AnySettings None"
    using assms(2) by (auto simp: settings_getter_def split: option.splits)
  have swap: "update_validate_swap GetSwapInfo r (Some b) \<noteq> Panics"
    using assms(1) by (rule update_validate_swap_returns)
  have "ValidateUpdate GetSwapInfo r (IsVirtualMachine b) \<noteq> Panics"
    using ValidateUpdate_returns [of GetSwapInfo r b] by auto
  with same old new swap show ?thesis by simp
qed

theorem old_settings_not_nil_at_swap_step_witness:
  "(check_immutable immutableFields (with_settings (Some sample_settings) sample_vm)
      (Some (with_settings (Some sample_settings_conflict) sample_vm))
        :: (int, int, string) error option outcome) = Returns None
   \<and> Settings (Guest (Spec (with_settings (Some sample_settings) sample_vm))) \<noteq> None
   \<and> Settings (Guest (Spec (with_settings (Some sample_settings_conflict) sample_vm))) \<noteq> None
   \<and> ValidateUpdate sample_GetSwapInfo (with_settings (Some sample_settings) sample_vm)
        (IsVirtualMachine (with_settings (Some sample_settings_conflict) sample_vm)) \<noteq> Panics"
proof -
  have passed: "(check_immutable immutableFields (with_settings (Some sample_settings) sample_vm)
      (Some (with_settings (Some sample_settings_conflict) sample_vm))
        :: (int, int, string) error option outcome) = Returns None"
    by code_simp
  have new: "Settings (Guest (Spec (with_settings (Some sample_settings) sample_vm))) \<noteq> None"
    by (simp add: with_settings_def)
  show ?thesis
    using passed new
      old_settings_not_nil_at_swap_step [OF passed new, of sample_GetSwapInfo]
    by simp
qed

text \<open>
  C8. With the same object \<open>v\<close> as old and as new, the loop over the table returns no
  error, the swap step does not return the swap immutability error, and the call
  returns no error with a fixed text at all; the only such errors of
  \<^verbatim>\<open>ValidateUpdate\<close> are the errors \<open>... is immutable\<close> of the table and of the swap
  step. (The call can still return the error of \<^verbatim>\<open>GetSwapInfo\<close> on the settings of
  \<open>v\<close>, or a range error.)
\<close>

theorem ValidateUpdate_same_object:
  fixes GetSwapInfo :: "'o GuestSettings \<Rightarrow> 'e + 'd"
    and v :: "('c::linorder, 'm::linorder, 'o) VirtualMachine"
  shows "(check_immutable immutableFields v (Some v) :: ('c, 'm, 'e) error option outcome)
           = Returns None
     \<and> update_validate_swap GetSwapInfo v (Some v)
         \<noteq> Returns (Some (ErrorText ''.spec.guest.settings.{swap,swapInfo} is immutable''))
     \<and> ValidateUpdate GetSwapInfo v (IsVirtualMachine v) \<noteq> Returns (w, Some (ErrorText msg))"
proof -
  have table: "(check_immutable immutableFields v (Some v) :: ('c, 'm, 'e) error option outcome)
                 = Returns None"
    by (rule check_immutable_same)
  have swap: "update_validate_swap GetSwapInfo v (Some v) \<noteq> Returns (Some (ErrorText t))" for t
    by (simp add: update_validate_swap_def split: option.split sum.split)
  have "ValidateUpdate GetSwapInfo v (IsVirtualMachine v) \<noteq> Returns (w, Some (ErrorText msg))"
    using swap [of msg]
    by (auto simp: ValidateUpdate_steps table update_validate_cpus_def
        update_validate_memory_slots_def Let_def split: outcome.splits option.splits if_splits)
  with table swap show ?thesis by simp
qed

text \<open>
  C1. Let the loop over the table have returned no error and let the settings of the
  new object be \<open>newSettings\<close>, not nil. Then the old object has settings
  \<open>oldSettings\<close>, and:
  \<^item> when \<^verbatim>\<open>GetSwapInfo\<close> fails on \<open>newSettings\<close>, the call returns that error, as it
    is;
  \<^item> when it succeeds on \<open>newSettings\<close> and fails on \<open>oldSettings\<close>, the swap step
    returns no error, and the call returns what the range checks of lines 190 to 212
    give for the new object;
  \<^item> when it succeeds on both, the call returns the swap immutability error exactly
    when the two descriptors differ; when they are equal the swap step returns no
    error and the call returns what the range checks give.
\<close>

theorem swap_transition_rule:
  fixes GetSwapInfo :: "'o GuestSettings \<Rightarrow> 'e + 'd"
    and r :: "('c::linorder, 'm::linorder, 'o) VirtualMachine"
  assumes "(check_immutable immutableFields r (Some b) :: ('c, 'm, 'e) error option outcome)
             = Returns None"
    and "Settings (Guest (Spec r)) = Some newSettings"
  shows "\<exists>oldSettings. Settings (Guest (Spec b)) = Some oldSettings \<and>
     (case GetSwapInfo newSettings of
        Inl err \<Rightarrow>
          ValidateUpdate GetSwapInfo r (IsVirtualMachine b) = Returns (None, Some (Propagated err))
      | Inr newSwapInfo \<Rightarrow>
          (case GetSwapInfo oldSettings of
             Inl err \<Rightarrow>
               update_validate_swap GetSwapInfo r (Some b) = Returns None
               \<and> ValidateUpdate GetSwapInfo r (IsVirtualMachine b) =
                   Returns (None, case update_validate_cpus r of
                                    Some err \<Rightarrow> Some err
                                  | None \<Rightarrow> update_validate_memory_slots r)
           | Inr oldSwapInfo \<Rightarrow>
               (ValidateUpdate GetSwapInfo r (IsVirtualMachine b) =
                  Returns (None, Some (ErrorText
                    ''.spec.guest.settings.{swap,swapInfo} is immutable'')))
                 = (newSwapInfo \<noteq> oldSwapInfo)
               \<and> (newSwapInfo = oldSwapInfo \<longrightarrow>
                    update_validate_swap GetSwapInfo r (Some b) = Returns None
                    \<and> ValidateUpdate GetSwapInfo r (IsVirtualMachine b) =
                        Returns (None, case update_validate_cpus r of
                                         Some err \<Rightarrow> Some err
                                       | None \<Rightarrow> update_validate_memory_slots r))))"
proof -
  obtain oldSettings where old: "Settings (Guest (Spec b)) = Some oldSettings"
    using assms passed_old_settings by blast
  have ranges: "(case update_validate_cpus r of
                   Some err \<Rightarrow> Some err
                 | None \<Rightarrow> update_validate_memory_slots r)
                  \<noteq> (Some (ErrorText msg) :: ('c, 'm, 'e) error option)" for msg
    by (simp add: update_validate_cpus_def update_validate_memory_slots_def Let_def
        split: option.split)
  have run: "ValidateUpdate GetSwapInfo r (IsVirtualMachine b) =
     (case update_validate_swap GetSwapInfo r (Some b) of
        Panics \<Rightarrow> Panics
      | Returns (Some err) \<Rightarrow> Returns (None, Some err)
      | Returns None \<Rightarrow>
          Returns (None, case update_validate_cpus r of
                           Some err \<Rightarrow> Some err
                         | None \<Rightarrow> update_validate_memory_slots r))"
    by (simp add: ValidateUpdate_steps assms(1) split: outcome.split option.split)
  have "case GetSwapInfo newSettings of
        Inl err \<Rightarrow>
          ValidateUpdate GetSwapInfo r (IsVirtualMachine b) = Returns (None, Some (Propagated err))
      | Inr newSwapInfo \<Rightarrow>
          (case GetSwapInfo oldSettings of
             Inl err \<Rightarrow>
               update_validate_swap GetSwapInfo r (Some b) = Returns None
               \<and> ValidateUpdate GetSwapInfo r (IsVirtualMachine b) =
                   Returns (None, case update_validate_cpus r of
                                    Some err \<Rightarrow> Some err
                                  | None \<Rightarrow> update_validate_memory_slots r)
           | Inr oldSwapInfo \<Rightarrow>
               (ValidateUpdate GetSwapInfo r (IsVirtualMachine b) =
                  Returns (None, Some (ErrorText
                    ''.spec.guest.settings.{swap,swapInfo} is immutable'')))
                 = (newSwapInfo \<noteq> oldSwapInfo)
               \<and> (newSwapInfo = oldSwapInfo \<longrightarrow>
                    update_validate_swap GetSwapInfo r (Some b) = Returns None
                    \<and> ValidateUpdate GetSwapInfo r (IsVirtualMachine b) =
                        Returns (None, case update_validate_cpus r of
                                         Some err \<Rightarrow> Some err
                                       | None \<Rightarrow> update_validate_memory_slots r)))"
    using ranges
    by (simp add: run update_validate_swap_def assms(2) old split: sum.split)
  with old show ?thesis by blast
qed

theorem swap_transition_rule_witness:
  "(check_immutable immutableFields (with_settings (Some sample_settings) sample_vm)
      (Some (with_settings (Some sample_settings_conflict) sample_vm))
        :: (int, int, string) error option outcome) = Returns None
   \<and> Settings (Guest (Spec (with_settings (Some sample_settings) sample_vm)))
        = Some sample_settings
   \<and> sample_GetSwapInfo sample_settings = Inr (Some ''1Gi'')
   \<and> sample_GetSwapInfo sample_settings_conflict = Inl ''conflicting swap fields''
   \<and> ValidateUpdate sample_GetSwapInfo (with_settings (Some sample_settings) sample_vm)
        (IsVirtualMachine (with_settings (Some sample_settings_conflict) sample_vm))
        = Returns (None, None)"
proof -
  have passed: "(check_immutable immutableFields (with_settings (Some sample_settings) sample_vm)
      (Some (with_settings (Some sample_settings_conflict) sample_vm))
        :: (int, int, string) error option outcome) = Returns None"
    by code_simp
  have new: "Settings (Guest (Spec (with_settings (Some sample_settings) sample_vm)))
               = Some sample_settings"
    by (simp add: with_settings_def)
  have old: "Settings (Guest (Spec (with_settings (Some sample_settings_conflict) sample_vm)))
               = Some sample_settings_conflict"
    by (simp add: with_settings_def)
  have derive_new: "sample_GetSwapInfo sample_settings = Inr (Some ''1Gi'')"
    by (simp add: sample_GetSwapInfo_def sample_settings_def)
  have derive_old: "sample_GetSwapInfo sample_settings_conflict = Inl ''conflicting swap fields''"
    by (simp add: sample_GetSwapInfo_def sample_settings_conflict_def)
  have ranges: "(update_validate_cpus (with_settings (Some sample_settings) sample_vm)
                   :: (int, int, string) error option) = None"
      "(update_validate_memory_slots (with_settings (Some sample_settings) sample_vm)
                   :: (int, int, string) error option) = None"
    by code_simp+
  show ?thesis
    using passed new derive_new derive_old
      swap_transition_rule [OF passed new, of sample_GetSwapInfo]
    by (simp add: old ranges)
qed

subsection \<open>The disk names and the swap fields at creation\<close>

lemma validate_disk_name_None:
  "((validate_disk_name disk :: ('c, 'm, 'e) error option) = None) =
     (Disk_Name disk \<notin> set reservedDiskNames \<and> length (Disk_Name disk) \<le> 32)"
  by (auto simp: validate_disk_name_def)

lemma validate_disk_names_None:
  "((validate_disk_names disks :: ('c, 'm, 'e) error option) = None) =
     (\<forall>disk \<in> set disks.
        Disk_Name disk \<notin> set reservedDiskNames \<and> length (Disk_Name disk) \<le> 32)"
proof (induction disks)
  case Nil
  then show ?case by simp
next
  case (Cons disk disks)
  show ?case
  proof (cases "validate_disk_name disk :: ('c, 'm, 'e) error option")
    case None
    then show ?thesis
      using Cons validate_disk_name_None [of disk, where ?'c = 'c and ?'m = 'm and ?'e = 'e]
      by simp
  next
    case (Some err)
    then show ?thesis
      using validate_disk_name_None [of disk, where ?'c = 'c and ?'m = 'm and ?'e = 'e]
      by auto
  qed
qed

lemma ValidateCreate_accepts_disks:
  fixes V :: "('c::linorder, 'm::linorder, 'o) Guest \<Rightarrow> 'o \<Rightarrow> 'e option"
  assumes "snd (ValidateCreate V r) = None" and "disk \<in> set (range_of (Disks (Spec r)))"
  shows "Disk_Name disk \<notin> set reservedDiskNames \<and> length (Disk_Name disk) \<le> 32"
proof -
  have "(validate_disk_names (range_of (Disks (Spec r))) :: ('c, 'm, 'e) error option) = None"
    using assms(1) by (auto simp: ValidateCreate_def split: option.splits)
  then show ?thesis
    using assms(2) by (simp add: validate_disk_names_None)
qed

lemma ValidateCreate_last_step:
  fixes V :: "('c::linorder, 'm::linorder, 'o) Guest \<Rightarrow> 'o \<Rightarrow> 'e option"
  assumes "(create_validate_cpus r :: ('c, 'm, 'e) error option) = None"
    and "create_validate_memory_provider V r = None"
    and "(create_validate_memory_slots r :: ('c, 'm, 'e) error option) = None"
    and "(validate_disk_names (range_of (Disks (Spec r))) :: ('c, 'm, 'e) error option) = None"
    and "(validate_port_names (range_of (Ports (Guest (Spec r)))) :: ('c, 'm, 'e) error option)
           = None"
  shows "ValidateCreate V r = (None, create_validate_swap r)"
  using assms by (simp add: ValidateCreate_def split: option.split)

lemma ValidateCreate_rejects_swap:
  fixes V :: "('c::linorder, 'm::linorder, 'o) Guest \<Rightarrow> 'o \<Rightarrow> 'e option"
  assumes "(create_validate_swap r :: ('c, 'm, 'e) error option) \<noteq> None"
  shows "snd (ValidateCreate V r) \<noteq> None"
  using assms by (auto simp: ValidateCreate_def split: option.splits)

text \<open>
  C5, as stated, fails for names that are not ASCII. Line 100 compares
  \<^verbatim>\<open>len(disk.Name)\<close>, the number of bytes, with 32. A name of exactly 32 characters
  of two bytes each has 64 bytes: it is not reserved, and the check of the loop body
  and \<^verbatim>\<open>ValidateCreate\<close> reject it as too long.
\<close>

theorem disk_name_characters_counterexample:
  "utf8_characters sample_name_32_characters = 32
   \<and> length sample_name_32_characters = 64
   \<and> sample_name_32_characters \<notin> set reservedDiskNames
   \<and> (validate_disk_name \<lparr>Disk_Name = sample_name_32_characters, Disk_rest = ''payload''\<rparr>
         :: (int, int, string) error option)
       = Some (ErrorText (''disk name '' @ [CHR 0x27] @ sample_name_32_characters @ [CHR 0x27]
                 @ '' too long, should be less than or equal to 32''))
   \<and> ValidateCreate sample_ValidateForMemoryProvider
        (with_disks (Some [\<lparr>Disk_Name = sample_name_32_characters, Disk_rest = ''payload''\<rparr>])
           sample_vm)
       = (None, Some (ErrorText (''disk name '' @ [CHR 0x27] @ sample_name_32_characters
                        @ [CHR 0x27] @ '' too long, should be less than or equal to 32'')))"
proof -
  have chars: "utf8_characters sample_name_32_characters = 32"
    by code_simp
  have bytes: "length sample_name_32_characters = 64"
    by code_simp
  have free: "sample_name_32_characters \<notin> set reservedDiskNames"
    by code_simp
  have body: "(validate_disk_name
         \<lparr>Disk_Name = sample_name_32_characters, Disk_rest = ''payload''\<rparr>
         :: (int, int, string) error option)
       = Some (ErrorText (''disk name '' @ [CHR 0x27] @ sample_name_32_characters @ [CHR 0x27]
                 @ '' too long, should be less than or equal to 32''))"
    using bytes free by (simp add: validate_disk_name_def)
  have before:
    "(create_validate_cpus (with_disks
        (Some [\<lparr>Disk_Name = sample_name_32_characters, Disk_rest = ''payload''\<rparr>]) sample_vm)
        :: (int, int, string) error option) = None"
    "create_validate_memory_provider sample_ValidateForMemoryProvider (with_disks
        (Some [\<lparr>Disk_Name = sample_name_32_characters, Disk_rest = ''payload''\<rparr>]) sample_vm)
       = None"
    "(create_validate_memory_slots (with_disks
        (Some [\<lparr>Disk_Name = sample_name_32_characters, Disk_rest = ''payload''\<rparr>]) sample_vm)
        :: (int, int, string) error option) = None"
    by (simp_all add: create_validate_cpus_def create_validate_memory_provider_def
        create_validate_memory_slots_def with_disks_def sample_vm_def)
  have disks: "range_of (Disks (Spec (with_disks
        (Some [\<lparr>Disk_Name = sample_name_32_characters, Disk_rest = ''payload''\<rparr>]) sample_vm)))
       = [\<lparr>Disk_Name = sample_name_32_characters, Disk_rest = ''payload''\<rparr>]"
    by (simp add: with_disks_def range_of_def)
  have call: "ValidateCreate sample_ValidateForMemoryProvider
        (with_disks (Some [\<lparr>Disk_Name = sample_name_32_characters, Disk_rest = ''payload''\<rparr>])
           sample_vm)
       = (None, Some (ErrorText (''disk name '' @ [CHR 0x27] @ sample_name_32_characters
                        @ [CHR 0x27] @ '' too long, should be less than or equal to 32'')))"
    by (simp add: ValidateCreate_def before disks body)
  from chars bytes free body call show ?thesis by simp
qed

text \<open>
  C5, amended: lengths are in bytes, as \<^verbatim>\<open>len\<close> counts them. \<open>rootdisk\<close> is one of the
  reserved names. A disk whose name is a reserved name fails the check of the loop
  body with the error \<open>... is reserved ...\<close>, whatever else the disk holds; a disk
  whose name is not reserved and has more than 32 bytes fails it with the error
  \<open>... too long ...\<close>; a name of more than 32 characters has more than 32 bytes; and
  \<^verbatim>\<open>ValidateCreate\<close> returns an error for every object that has a disk of either
  kind. A disk whose name has exactly 32 bytes and is not reserved passes the check of
  the loop body. When every disk of an object has a name that is not reserved and has
  at most 32 bytes, the loop over the disks returns no error, and \<^verbatim>\<open>ValidateCreate\<close>
  accepts the object if its five other checks pass.
\<close>

theorem disk_name_checks:
  fixes ValidateForMemoryProvider :: "('c::linorder, 'm::linorder, 'o) Guest \<Rightarrow> 'o \<Rightarrow> 'e option"
    and disks :: "'o Disk list"
  shows "''rootdisk'' \<in> set reservedDiskNames
     \<and> (Disk_Name disk \<in> set reservedDiskNames \<longrightarrow>
          (validate_disk_name disk :: ('c, 'm, 'e) error option)
            = Some (ErrorText ([CHR 0x27] @ Disk_Name disk @ [CHR 0x27]
                      @ '' is reserved for .spec.disks[].name'')))
     \<and> (Disk_Name disk \<notin> set reservedDiskNames \<and> length (Disk_Name disk) > 32 \<longrightarrow>
          (validate_disk_name disk :: ('c, 'm, 'e) error option)
            = Some (ErrorText (''disk name '' @ [CHR 0x27] @ Disk_Name disk @ [CHR 0x27]
                      @ '' too long, should be less than or equal to 32'')))
     \<and> (utf8_characters (Disk_Name disk) > 32 \<longrightarrow> length (Disk_Name disk) > 32)
     \<and> (Disk_Name disk \<in> set reservedDiskNames \<or> length (Disk_Name disk) > 32 \<longrightarrow>
          (validate_disk_name disk :: ('c, 'm, 'e) error option) \<noteq> None
          \<and> (disk \<in> set (range_of (Disks (Spec r))) \<longrightarrow>
               snd (ValidateCreate ValidateForMemoryProvider r) \<noteq> None))
     \<and> (length (Disk_Name disk) = 32 \<and> Disk_Name disk \<notin> set reservedDiskNames \<longrightarrow>
          (validate_disk_name disk :: ('c, 'm, 'e) error option) = None)
     \<and> ((\<forall>d \<in> set disks. length (Disk_Name d) \<le> 32 \<and> Disk_Name d \<notin> set reservedDiskNames) \<longrightarrow>
          (validate_disk_names disks :: ('c, 'm, 'e) error option) = None)
     \<and> ((\<forall>d \<in> set (range_of (Disks (Spec r))).
             length (Disk_Name d) \<le> 32 \<and> Disk_Name d \<notin> set reservedDiskNames)
         \<and> (create_validate_cpus r :: ('c, 'm, 'e) error option) = None
         \<and> create_validate_memory_provider ValidateForMemoryProvider r = None
         \<and> (create_validate_memory_slots r :: ('c, 'm, 'e) error option) = None
         \<and> (validate_port_names (range_of (Ports (Guest (Spec r))))
               :: ('c, 'm, 'e) error option) = None
         \<and> (create_validate_swap r :: ('c, 'm, 'e) error option) = None \<longrightarrow>
          ValidateCreate ValidateForMemoryProvider r = (None, None))"
proof -
  have listed: "''rootdisk'' \<in> set reservedDiskNames"
    by (simp add: reservedDiskNames_def)
  have reserved: "(validate_disk_name disk :: ('c, 'm, 'e) error option)
            = Some (ErrorText ([CHR 0x27] @ Disk_Name disk @ [CHR 0x27]
                      @ '' is reserved for .spec.disks[].name''))"
    if "Disk_Name disk \<in> set reservedDiskNames"
    using that by (simp add: validate_disk_name_def)
  have long: "(validate_disk_name disk :: ('c, 'm, 'e) error option)
            = Some (ErrorText (''disk name '' @ [CHR 0x27] @ Disk_Name disk @ [CHR 0x27]
                      @ '' too long, should be less than or equal to 32''))"
    if "Disk_Name disk \<notin> set reservedDiskNames \<and> length (Disk_Name disk) > 32"
    using that by (simp add: validate_disk_name_def)
  have chars: "length (Disk_Name disk) > 32" if "utf8_characters (Disk_Name disk) > 32"
  proof -
    have "utf8_characters (Disk_Name disk) \<le> length (Disk_Name disk)"
      by (simp add: utf8_characters_def)
    with that show ?thesis by simp
  qed
  have body: "(validate_disk_name disk :: ('c, 'm, 'e) error option) \<noteq> None"
    if "Disk_Name disk \<in> set reservedDiskNames \<or> length (Disk_Name disk) > 32"
    using that by (auto simp: validate_disk_name_None)
  have call: "snd (ValidateCreate ValidateForMemoryProvider r) \<noteq> None"
    if "Disk_Name disk \<in> set reservedDiskNames \<or> length (Disk_Name disk) > 32"
      and "disk \<in> set (range_of (Disks (Spec r)))"
  proof
    assume "snd (ValidateCreate ValidateForMemoryProvider r) = None"
    from ValidateCreate_accepts_disks [OF this that(2)] that(1) show False by simp
  qed
  have pass: "(validate_disk_name disk :: ('c, 'm, 'e) error option) = None"
    if "length (Disk_Name disk) = 32 \<and> Disk_Name disk \<notin> set reservedDiskNames"
    using that by (simp add: validate_disk_name_None)
  have loop: "(validate_disk_names ds :: ('c, 'm, 'e) error option) = None"
    if "\<forall>d \<in> set ds. length (Disk_Name d) \<le> 32 \<and> Disk_Name d \<notin> set reservedDiskNames"
    for ds :: "'o Disk list"
    using that by (simp add: validate_disk_names_None)
  have accepted: "ValidateCreate ValidateForMemoryProvider r = (None, None)"
    if "(\<forall>d \<in> set (range_of (Disks (Spec r))).
             length (Disk_Name d) \<le> 32 \<and> Disk_Name d \<notin> set reservedDiskNames)
         \<and> (create_validate_cpus r :: ('c, 'm, 'e) error option) = None
         \<and> create_validate_memory_provider ValidateForMemoryProvider r = None
         \<and> (create_validate_memory_slots r :: ('c, 'm, 'e) error option) = None
         \<and> (validate_port_names (range_of (Ports (Guest (Spec r))))
               :: ('c, 'm, 'e) error option) = None
         \<and> (create_validate_swap r :: ('c, 'm, 'e) error option) = None"
  proof -
    from that have "(validate_disk_names (range_of (Disks (Spec r)))
                       :: ('c, 'm, 'e) error option) = None"
      using loop [of "range_of (Disks (Spec r))"] by blast
    with that show ?thesis
      by (simp add: ValidateCreate_last_step)
  qed
  from listed reserved long chars body call pass loop [of disks] accepted
  show ?thesis by blast
qed

theorem disk_name_checks_witness:
  "Disk_Name \<lparr>Disk_Name = ''rootdisk'', Disk_rest = ''payload''\<rparr> \<in> set reservedDiskNames
   \<and> \<lparr>Disk_Name = ''rootdisk'', Disk_rest = ''payload''\<rparr>
        \<in> set (range_of (Disks (Spec (with_disks
             (Some [\<lparr>Disk_Name = ''rootdisk'', Disk_rest = ''payload''\<rparr>]) sample_vm))))
   \<and> snd (ValidateCreate sample_ValidateForMemoryProvider
        (with_disks (Some [\<lparr>Disk_Name = ''rootdisk'', Disk_rest = ''payload''\<rparr>]) sample_vm))
        \<noteq> None
   \<and> length ''abcdefghijklmnopqrstuvwxyz012345'' = 32
   \<and> ''abcdefghijklmnopqrstuvwxyz012345'' \<notin> set reservedDiskNames
   \<and> (validate_disk_names
         [\<lparr>Disk_Name = ''abcdefghijklmnopqrstuvwxyz012345'', Disk_rest = ''payload''\<rparr>]
          :: (int, int, string) error option) = None
   \<and> ValidateCreate sample_ValidateForMemoryProvider
        (with_disks (Some [\<lparr>Disk_Name = ''abcdefghijklmnopqrstuvwxyz012345'',
                             Disk_rest = ''payload''\<rparr>]) sample_vm)
       = (None, None)"
proof -
  let ?reserved = "\<lparr>Disk_Name = ''rootdisk'', Disk_rest = ''payload''\<rparr>"
  let ?good = "\<lparr>Disk_Name = ''abcdefghijklmnopqrstuvwxyz012345'', Disk_rest = ''payload''\<rparr>"
  have name: "Disk_Name ?reserved \<in> set reservedDiskNames"
    by (simp add: reservedDiskNames_def)
  have listed: "?reserved \<in> set (range_of (Disks (Spec (with_disks (Some [?reserved]) sample_vm))))"
    by (simp add: with_disks_def range_of_def)
  have long: "length ''abcdefghijklmnopqrstuvwxyz012345'' = 32"
    by simp
  have free: "''abcdefghijklmnopqrstuvwxyz012345'' \<notin> set reservedDiskNames"
    by (simp add: reservedDiskNames_def)
  have disks: "range_of (Disks (Spec (with_disks (Some [?good]) sample_vm))) = [?good]"
    by (simp add: with_disks_def range_of_def)
  have others:
    "(create_validate_cpus (with_disks (Some [?good]) sample_vm)
        :: (int, int, string) error option) = None"
    "create_validate_memory_provider sample_ValidateForMemoryProvider
        (with_disks (Some [?good]) sample_vm) = None"
    "(create_validate_memory_slots (with_disks (Some [?good]) sample_vm)
        :: (int, int, string) error option) = None"
    "(validate_port_names (range_of (Ports (Guest (Spec (with_disks (Some [?good]) sample_vm)))))
        :: (int, int, string) error option) = None"
    "(create_validate_swap (with_disks (Some [?good]) sample_vm)
        :: (int, int, string) error option) = None"
    by (simp_all add: create_validate_cpus_def create_validate_memory_provider_def
        create_validate_memory_slots_def create_validate_swap_def range_of_def
        with_disks_def sample_vm_def)
  have rejected: "snd (ValidateCreate sample_ValidateForMemoryProvider
                    (with_disks (Some [?reserved]) sample_vm)) \<noteq> None"
    using name listed
      disk_name_checks [where disk = ?reserved
        and r = "with_disks (Some [?reserved]) sample_vm"
        and disks = "[?good]"
        and ValidateForMemoryProvider = sample_ValidateForMemoryProvider]
    by blast
  have passes: "(validate_disk_names [?good] :: (int, int, string) error option) = None
     \<and> ValidateCreate sample_ValidateForMemoryProvider (with_disks (Some [?good]) sample_vm)
         = (None, None)"
    using long free disks others
      disk_name_checks [where disk = ?good
        and r = "with_disks (Some [?good]) sample_vm"
        and disks = "[?good]"
        and ValidateForMemoryProvider = sample_ValidateForMemoryProvider]
    by simp
  from name listed rejected long free passes show ?thesis by simp
qed

text \<open>
  C7, as stated, fails: an object with both swap fields set whose CPU count is out of
  range is rejected with the CPU range error of line 60, since the checks run in
  order and the first error is returned.
\<close>

theorem ValidateCreate_conflicting_swap_counterexample:
  "Settings (Guest (Spec (with_cpus_use 9 (with_settings (Some sample_settings_conflict) sample_vm))))
     = Some sample_settings_conflict
   \<and> Swap sample_settings_conflict \<noteq> None
   \<and> SwapInfo sample_settings_conflict \<noteq> None
   \<and> ValidateCreate sample_ValidateForMemoryProvider
        (with_cpus_use 9 (with_settings (Some sample_settings_conflict) sample_vm))
       = (None, Some (CreateCpusUseAboveMax 9 4))
   \<and> ValidateCreate sample_ValidateForMemoryProvider
        (with_cpus_use 9 (with_settings (Some sample_settings_conflict) sample_vm))
       \<noteq> (None, Some (ErrorText ''cannot have both 'swap' and 'swapInfo' enabled''))"
proof -
  have run: "ValidateCreate sample_ValidateForMemoryProvider
        (with_cpus_use 9 (with_settings (Some sample_settings_conflict) sample_vm))
       = (None, Some (CreateCpusUseAboveMax 9 4))"
    by code_simp
  show ?thesis
    by (simp add: run)
       (simp add: with_cpus_use_def with_cpus_def with_settings_def sample_settings_conflict_def)
qed

text \<open>
  C7, amended. For every object whose settings are not nil and have both \<^verbatim>\<open>Swap\<close> and
  \<^verbatim>\<open>SwapInfo\<close> set, the swap check of lines 113 to 117 gives the conflicting-swap
  error and \<^verbatim>\<open>ValidateCreate\<close> returns an error; that error is the conflicting-swap
  error whenever the five checks before it (CPU range, memory provider, memory-slot
  range, disk names, port names) give none. An object with nil settings, or with at
  most one of the two fields set, passes the swap check.
\<close>

theorem ValidateCreate_conflicting_swap:
  fixes ValidateForMemoryProvider :: "('c::linorder, 'm::linorder, 'o) Guest \<Rightarrow> 'o \<Rightarrow> 'e option"
  shows
  "(Settings (Guest (Spec r)) = Some settings \<and> Swap settings \<noteq> None \<and> SwapInfo settings \<noteq> None \<longrightarrow>
      (create_validate_swap r :: ('c, 'm, 'e) error option)
        = Some (ErrorText ''cannot have both 'swap' and 'swapInfo' enabled'')
      \<and> snd (ValidateCreate ValidateForMemoryProvider r) \<noteq> None
      \<and> ((create_validate_cpus r :: ('c, 'm, 'e) error option) = None
          \<and> create_validate_memory_provider ValidateForMemoryProvider r = None
          \<and> (create_validate_memory_slots r :: ('c, 'm, 'e) error option) = None
          \<and> (validate_disk_names (range_of (Disks (Spec r))) :: ('c, 'm, 'e) error option) = None
          \<and> (validate_port_names (range_of (Ports (Guest (Spec r))))
                :: ('c, 'm, 'e) error option) = None \<longrightarrow>
          ValidateCreate ValidateForMemoryProvider r
            = (None, Some (ErrorText ''cannot have both 'swap' and 'swapInfo' enabled''))))
   \<and> (Settings (Guest (Spec r)) = None
       \<or> (Settings (Guest (Spec r)) = Some settings
           \<and> (Swap settings = None \<or> SwapInfo settings = None)) \<longrightarrow>
      (create_validate_swap r :: ('c, 'm, 'e) error option) = None)"
proof -
  have both: "(create_validate_swap r :: ('c, 'm, 'e) error option)
        = Some (ErrorText ''cannot have both 'swap' and 'swapInfo' enabled'')"
    if "Settings (Guest (Spec r)) = Some settings \<and> Swap settings \<noteq> None \<and> SwapInfo settings \<noteq> None"
    using that by (auto simp: create_validate_swap_def)
  have rejects: "snd (ValidateCreate ValidateForMemoryProvider r) \<noteq> None"
    if "Settings (Guest (Spec r)) = Some settings \<and> Swap settings \<noteq> None \<and> SwapInfo settings \<noteq> None"
    using both [OF that] ValidateCreate_rejects_swap [of r ValidateForMemoryProvider] by simp
  have last: "ValidateCreate ValidateForMemoryProvider r
            = (None, Some (ErrorText ''cannot have both 'swap' and 'swapInfo' enabled''))"
    if "Settings (Guest (Spec r)) = Some settings \<and> Swap settings \<noteq> None \<and> SwapInfo settings \<noteq> None"
      and "(create_validate_cpus r :: ('c, 'm, 'e) error option) = None
          \<and> create_validate_memory_provider ValidateForMemoryProvider r = None
          \<and> (create_validate_memory_slots r :: ('c, 'm, 'e) error option) = None
          \<and> (validate_disk_names (range_of (Disks (Spec r))) :: ('c, 'm, 'e) error option) = None
          \<and> (validate_port_names (range_of (Ports (Guest (Spec r))))
                :: ('c, 'm, 'e) error option) = None"
    using that(2) both [OF that(1)]
    by (simp add: ValidateCreate_last_step)
  have one: "(create_validate_swap r :: ('c, 'm, 'e) error option) = None"
    if "Settings (Guest (Spec r)) = None
       \<or> (Settings (Guest (Spec r)) = Some settings
           \<and> (Swap settings = None \<or> SwapInfo settings = None))"
    using that by (auto simp: create_validate_swap_def)
  from both rejects last one show ?thesis by blast
qed

theorem ValidateCreate_conflicting_swap_witness:
  "Settings (Guest (Spec (with_settings (Some sample_settings_conflict) sample_vm)))
     = Some sample_settings_conflict
   \<and> Swap sample_settings_conflict \<noteq> None
   \<and> SwapInfo sample_settings_conflict \<noteq> None
   \<and> ValidateCreate sample_ValidateForMemoryProvider
        (with_settings (Some sample_settings_conflict) sample_vm)
       = (None, Some (ErrorText ''cannot have both 'swap' and 'swapInfo' enabled''))"
proof -
  have settings: "Settings (Guest (Spec (with_settings (Some sample_settings_conflict) sample_vm)))
     = Some sample_settings_conflict"
    by (simp add: with_settings_def)
  have swap: "Swap sample_settings_conflict \<noteq> None" "SwapInfo sample_settings_conflict \<noteq> None"
    by (simp_all add: sample_settings_conflict_def)
  have before:
    "(create_validate_cpus (with_settings (Some sample_settings_conflict) sample_vm)
        :: (int, int, string) error option) = None"
    "create_validate_memory_provider sample_ValidateForMemoryProvider
        (with_settings (Some sample_settings_conflict) sample_vm) = None"
    "(create_validate_memory_slots (with_settings (Some sample_settings_conflict) sample_vm)
        :: (int, int, string) error option) = None"
    "(validate_disk_names (range_of (Disks (Spec
        (with_settings (Some sample_settings_conflict) sample_vm))))
        :: (int, int, string) error option) = None"
    "(validate_port_names (range_of (Ports (Guest (Spec
        (with_settings (Some sample_settings_conflict) sample_vm)))))
        :: (int, int, string) error option) = None"
    by code_simp+
  show ?thesis
    using settings swap before
      ValidateCreate_conflicting_swap
        [where r = "with_settings (Some sample_settings_conflict) sample_vm"
          and settings = sample_settings_conflict
          and ValidateForMemoryProvider = sample_ValidateForMemoryProvider]
    by simp
qed

subsection \<open>The first changed field of the table\<close>

lemma ValidateUpdate_first_changed:
  assumes "find (\<lambda>(n, g). g r \<noteq> g b) immutableFields = Some (fieldName, getter)"
  shows "ValidateUpdate GetSwapInfo r (IsVirtualMachine b)
           = Returns (None, Some (ErrorText (fieldName @ '' is immutable'')))"
  by (simp add: ValidateUpdate_steps check_immutable_find assms)

lemma changed_has_first:
  assumes "(n, g) \<in> set tbl" and "g r \<noteq> g b"
  shows "\<exists>fieldName getter. find (\<lambda>(n, g). g r \<noteq> g b) tbl = Some (fieldName, getter)
           \<and> (fieldName, getter) \<in> set tbl \<and> getter r \<noteq> getter b"
  using assms by (induction tbl) auto

lemma unchanged_table:
  assumes "\<forall>(n, g) \<in> set tbl. g r = g b"
  shows "check_immutable tbl r (Some b) = Returns None"
  using assms by (induction tbl) auto

lemma with_cpus_use_unchanged:
  "\<forall>(n, g) \<in> set immutableFields. g (with_cpus_use u b) = g b"
  by (simp add: immutableFields_def with_cpus_use_def with_cpus_def settings_getter_def)

text \<open>
  C2, as stated, fails in both halves. An update that changes \<^verbatim>\<open>.spec.guest.cpus.min\<close>
  from 1 to 2 together with \<^verbatim>\<open>.spec.guest.cpus.max\<close> from 4 to 8 is rejected with
  an error that names \<^verbatim>\<open>.spec.guest.cpus.min\<close>, not \<^verbatim>\<open>.spec.guest.cpus.max\<close>: the
  loop returns at the first entry of the table that differs. And an update that
  changes only \<^verbatim>\<open>.spec.guest.cpus.use\<close> from 2 to 3, within min 1 and max 4, is
  rejected when the memory-slot count of the object is out of its range, by the check
  of lines 203 to 212.
\<close>

theorem ValidateUpdate_immutable_counterexample:
  "CPUs_Max (CPUs (Guest (Spec sample_vm))) = 4
   \<and> CPUs_Max (CPUs (Guest (Spec
        (with_cpus \<lparr>CPUs_Min = 2, CPUs_Max = 8, CPUs_Use = 2\<rparr> sample_vm)))) = 8
   \<and> ValidateUpdate sample_GetSwapInfo
        (with_cpus \<lparr>CPUs_Min = 2, CPUs_Max = 8, CPUs_Use = 2\<rparr> sample_vm)
        (IsVirtualMachine sample_vm)
       = Returns (None, Some (ErrorText ''.spec.guest.cpus.min is immutable''))
   \<and> ValidateUpdate sample_GetSwapInfo
        (with_cpus \<lparr>CPUs_Min = 2, CPUs_Max = 8, CPUs_Use = 2\<rparr> sample_vm)
        (IsVirtualMachine sample_vm)
       \<noteq> Returns (None, Some (ErrorText ''.spec.guest.cpus.max is immutable''))
   \<and> CPUs (Guest (Spec (with_memory_slots
        \<lparr>MemorySlots_Min = 1, MemorySlots_Max = 4, MemorySlots_Use = 9\<rparr> sample_vm)))
       = \<lparr>CPUs_Min = 1, CPUs_Max = 4, CPUs_Use = 2\<rparr>
   \<and> ValidateUpdate sample_GetSwapInfo
        (with_cpus_use 3 (with_memory_slots
           \<lparr>MemorySlots_Min = 1, MemorySlots_Max = 4, MemorySlots_Use = 9\<rparr> sample_vm))
        (IsVirtualMachine (with_memory_slots
           \<lparr>MemorySlots_Min = 1, MemorySlots_Max = 4, MemorySlots_Use = 9\<rparr> sample_vm))
       = Returns (None, Some (UpdateMemorySlotsUseAboveMax 9 4))"
proof -
  have first: "ValidateUpdate sample_GetSwapInfo
        (with_cpus \<lparr>CPUs_Min = 2, CPUs_Max = 8, CPUs_Use = 2\<rparr> sample_vm)
        (IsVirtualMachine sample_vm)
       = Returns (None, Some (ErrorText ''.spec.guest.cpus.min is immutable''))"
    by code_simp
  have second: "ValidateUpdate sample_GetSwapInfo
        (with_cpus_use 3 (with_memory_slots
           \<lparr>MemorySlots_Min = 1, MemorySlots_Max = 4, MemorySlots_Use = 9\<rparr> sample_vm))
        (IsVirtualMachine (with_memory_slots
           \<lparr>MemorySlots_Min = 1, MemorySlots_Max = 4, MemorySlots_Use = 9\<rparr> sample_vm))
       = Returns (None, Some (UpdateMemorySlotsUseAboveMax 9 4))"
    by code_simp
  show ?thesis
    by (simp add: first second)
       (simp add: with_cpus_def with_memory_slots_def sample_vm_def)
qed

text \<open>
  C2, amended. If any entry of the table differs between old and new, there is a
  first such entry in the order of the table, and \<^verbatim>\<open>ValidateUpdate\<close> rejects with
  the path of that first entry followed by \<open> is immutable\<close>; so a change of
  \<^verbatim>\<open>.spec.guest.cpus.max\<close> with \<^verbatim>\<open>.spec.guest.cpus.min\<close> unchanged is rejected with
  the path \<^verbatim>\<open>.spec.guest.cpus.max\<close>. An update that changes only
  \<^verbatim>\<open>.spec.guest.cpus.use\<close>, to a value within min and max, is accepted when the
  memory-slot count is within its min and max and the settings are nil or
  \<^verbatim>\<open>GetSwapInfo\<close> succeeds on them.
\<close>

theorem ValidateUpdate_immutable_first_changed:
  fixes GetSwapInfo :: "'o GuestSettings \<Rightarrow> 'e + 'd"
    and r :: "('c::linorder, 'm::linorder, 'o) VirtualMachine"
  shows
  "((n, g) \<in> set immutableFields \<and> g r \<noteq> g b \<longrightarrow>
      (\<exists>fieldName getter.
         find (\<lambda>(n, g). g r \<noteq> g b) immutableFields = Some (fieldName, getter)
         \<and> getter r \<noteq> getter b
         \<and> ValidateUpdate GetSwapInfo r (IsVirtualMachine b)
             = Returns (None, Some (ErrorText (fieldName @ '' is immutable'')))))
   \<and> (CPUs_Min (CPUs (Guest (Spec r))) = CPUs_Min (CPUs (Guest (Spec b)))
       \<and> CPUs_Max (CPUs (Guest (Spec r))) \<noteq> CPUs_Max (CPUs (Guest (Spec b))) \<longrightarrow>
      ValidateUpdate GetSwapInfo r (IsVirtualMachine b)
        = Returns (None, Some (ErrorText ''.spec.guest.cpus.max is immutable'')))
   \<and> (CPUs_Min (CPUs (Guest (Spec b))) \<le> u \<and> u \<le> CPUs_Max (CPUs (Guest (Spec b)))
       \<and> MemorySlots_Min (MemorySlots (Guest (Spec b))) \<le> MemorySlots_Use (MemorySlots (Guest (Spec b)))
       \<and> MemorySlots_Use (MemorySlots (Guest (Spec b))) \<le> MemorySlots_Max (MemorySlots (Guest (Spec b)))
       \<and> (Settings (Guest (Spec b)) = None
           \<or> (\<exists>settings swapInfo. Settings (Guest (Spec b)) = Some settings
                 \<and> GetSwapInfo settings = Inr swapInfo)) \<longrightarrow>
      ValidateUpdate GetSwapInfo (with_cpus_use u b) (IsVirtualMachine b) = Returns (None, None))"
proof -
  have first: "\<exists>fieldName getter.
         find (\<lambda>(n, g). g r \<noteq> g b) immutableFields = Some (fieldName, getter)
         \<and> getter r \<noteq> getter b
         \<and> ValidateUpdate GetSwapInfo r (IsVirtualMachine b)
             = Returns (None, Some (ErrorText (fieldName @ '' is immutable'')))"
    if "(n, g) \<in> set immutableFields \<and> g r \<noteq> g b"
  proof -
    from that obtain fieldName getter
      where found: "find (\<lambda>(n, g). g r \<noteq> g b) immutableFields = Some (fieldName, getter)"
        and differs: "getter r \<noteq> getter b"
      using changed_has_first [of n g immutableFields r b] by blast
    from ValidateUpdate_first_changed [OF found, of GetSwapInfo] found differs
    show ?thesis by blast
  qed
  have cpus_max: "ValidateUpdate GetSwapInfo r (IsVirtualMachine b)
        = Returns (None, Some (ErrorText ''.spec.guest.cpus.max is immutable''))"
    if "CPUs_Min (CPUs (Guest (Spec r))) = CPUs_Min (CPUs (Guest (Spec b)))
       \<and> CPUs_Max (CPUs (Guest (Spec r))) \<noteq> CPUs_Max (CPUs (Guest (Spec b)))"
  proof -
    have "\<exists>getter. find (\<lambda>(n, g). g r \<noteq> g b) immutableFields
            = Some (''.spec.guest.cpus.max'', getter)"
      using that by (simp add: immutableFields_def)
    then obtain getter where "find (\<lambda>(n, g). g r \<noteq> g b) immutableFields
            = Some (''.spec.guest.cpus.max'', getter)"
      by blast
    from ValidateUpdate_first_changed [OF this, of GetSwapInfo] show ?thesis by simp
  qed
  have accepted:
    "ValidateUpdate GetSwapInfo (with_cpus_use u b) (IsVirtualMachine b) = Returns (None, None)"
    if "CPUs_Min (CPUs (Guest (Spec b))) \<le> u \<and> u \<le> CPUs_Max (CPUs (Guest (Spec b)))
       \<and> MemorySlots_Min (MemorySlots (Guest (Spec b))) \<le> MemorySlots_Use (MemorySlots (Guest (Spec b)))
       \<and> MemorySlots_Use (MemorySlots (Guest (Spec b))) \<le> MemorySlots_Max (MemorySlots (Guest (Spec b)))
       \<and> (Settings (Guest (Spec b)) = None
           \<or> (\<exists>settings swapInfo. Settings (Guest (Spec b)) = Some settings
                 \<and> GetSwapInfo settings = Inr swapInfo))"
  proof -
    have table: "(check_immutable immutableFields (with_cpus_use u b) (Some b)
                    :: ('c, 'm, 'e) error option outcome) = Returns None"
      using with_cpus_use_unchanged by (rule unchanged_table)
    have swap: "update_validate_swap GetSwapInfo (with_cpus_use u b) (Some b) = Returns None"
      using that
      by (auto simp: update_validate_swap_def with_cpus_use_def with_cpus_def)
    have cpus: "(update_validate_cpus (with_cpus_use u b) :: ('c, 'm, 'e) error option) = None"
      using that
      by (simp add: update_validate_cpus_None with_cpus_use_def)
    have slots: "(update_validate_memory_slots (with_cpus_use u b) :: ('c, 'm, 'e) error option)
                   = None"
      using that
      by (simp add: update_validate_memory_slots_None with_cpus_use_def with_cpus_def)
    show ?thesis
      by (simp add: ValidateUpdate_steps table swap cpus slots)
  qed
  from first cpus_max accepted show ?thesis by blast
qed

theorem ValidateUpdate_immutable_first_changed_witness:
  "CPUs_Min (CPUs (Guest (Spec (with_cpus \<lparr>CPUs_Min = 1, CPUs_Max = 8, CPUs_Use = 2\<rparr> sample_vm))))
     = CPUs_Min (CPUs (Guest (Spec sample_vm)))
   \<and> CPUs_Max (CPUs (Guest (Spec (with_cpus \<lparr>CPUs_Min = 1, CPUs_Max = 8, CPUs_Use = 2\<rparr> sample_vm))))
       \<noteq> CPUs_Max (CPUs (Guest (Spec sample_vm)))
   \<and> ValidateUpdate sample_GetSwapInfo
        (with_cpus \<lparr>CPUs_Min = 1, CPUs_Max = 8, CPUs_Use = 2\<rparr> sample_vm)
        (IsVirtualMachine sample_vm)
       = Returns (None, Some (ErrorText ''.spec.guest.cpus.max is immutable''))
   \<and> CPUs_Min (CPUs (Guest (Spec sample_vm))) \<le> 3
   \<and> 3 \<le> CPUs_Max (CPUs (Guest (Spec sample_vm)))
   \<and> Settings (Guest (Spec sample_vm)) = None
   \<and> ValidateUpdate sample_GetSwapInfo (with_cpus_use 3 sample_vm) (IsVirtualMachine sample_vm)
       = Returns (None, None)"
proof -
  have fields: "CPUs (Guest (Spec sample_vm)) = \<lparr>CPUs_Min = 1, CPUs_Max = 4, CPUs_Use = 2\<rparr>"
    "MemorySlots (Guest (Spec sample_vm))
       = \<lparr>MemorySlots_Min = 1, MemorySlots_Max = 4, MemorySlots_Use = 2\<rparr>"
    "Settings (Guest (Spec sample_vm)) = None"
    by (simp_all add: sample_vm_def)
  show ?thesis
    using fields
      ValidateUpdate_immutable_first_changed
        [where r = "with_cpus \<lparr>CPUs_Min = 1, CPUs_Max = 8, CPUs_Use = 2\<rparr> sample_vm"
          and b = sample_vm and u = 3 and GetSwapInfo = sample_GetSwapInfo]
    by simp
qed

text \<open>
  C3, as stated, fails: an update that changes the memory provider together with
  \<^verbatim>\<open>.spec.guest.cpus.max\<close> is rejected with the error that names
  \<^verbatim>\<open>.spec.guest.cpus.max\<close>, which comes earlier in the table.
\<close>

theorem memoryProvider_counterexample:
  "MemoryProvider (Guest (Spec (with_memory_provider (Some ''B'')
        (with_cpus \<lparr>CPUs_Min = 1, CPUs_Max = 8, CPUs_Use = 2\<rparr> sample_vm))))
     \<noteq> MemoryProvider (Guest (Spec (with_memory_provider (Some ''A'') sample_vm)))
   \<and> ValidateUpdate sample_GetSwapInfo
        (with_memory_provider (Some ''B'')
           (with_cpus \<lparr>CPUs_Min = 1, CPUs_Max = 8, CPUs_Use = 2\<rparr> sample_vm))
        (IsVirtualMachine (with_memory_provider (Some ''A'') sample_vm))
       = Returns (None, Some (ErrorText ''.spec.guest.cpus.max is immutable''))
   \<and> ValidateUpdate sample_GetSwapInfo
        (with_memory_provider (Some ''B'')
           (with_cpus \<lparr>CPUs_Min = 1, CPUs_Max = 8, CPUs_Use = 2\<rparr> sample_vm))
        (IsVirtualMachine (with_memory_provider (Some ''A'') sample_vm))
       \<noteq> Returns (None, Some (ErrorText ''.spec.guest.memoryProvider is immutable''))"
proof -
  have run: "ValidateUpdate sample_GetSwapInfo
        (with_memory_provider (Some ''B'')
           (with_cpus \<lparr>CPUs_Min = 1, CPUs_Max = 8, CPUs_Use = 2\<rparr> sample_vm))
        (IsVirtualMachine (with_memory_provider (Some ''A'') sample_vm))
       = Returns (None, Some (ErrorText ''.spec.guest.cpus.max is immutable''))"
    by code_simp
  show ?thesis
    by (simp add: run) (simp add: with_memory_provider_def)
qed

text \<open>
  C3, amended. The table has an entry \<^verbatim>\<open>.spec.guest.memoryProvider\<close>, although the
  comment of lines 135 to 137 says that the memory provider is not checked. For every
  update in which the memory provider differs between old and new,
  \<^verbatim>\<open>ValidateUpdate\<close> rejects with the error \<open>... is immutable\<close> of an entry of the
  table that differs; the error is \<open>.spec.guest.memoryProvider is immutable\<close> whenever
  the four entries before it (CPU min and max, memory-slot min and max) are unchanged.
\<close>

theorem memoryProvider_is_immutable:
  fixes GetSwapInfo :: "'o GuestSettings \<Rightarrow> 'e + 'd"
    and r :: "('c::linorder, 'm::linorder, 'o) VirtualMachine"
  shows
  "MemoryProvider (Guest (Spec r)) \<noteq> MemoryProvider (Guest (Spec b)) \<longrightarrow>
     (\<exists>fieldName getter.
        (fieldName, getter) \<in> set immutableFields
        \<and> getter r \<noteq> getter b
        \<and> ValidateUpdate GetSwapInfo r (IsVirtualMachine b)
            = Returns (None, Some (ErrorText (fieldName @ '' is immutable''))))
     \<and> (CPUs_Min (CPUs (Guest (Spec r))) = CPUs_Min (CPUs (Guest (Spec b)))
         \<and> CPUs_Max (CPUs (Guest (Spec r))) = CPUs_Max (CPUs (Guest (Spec b)))
         \<and> MemorySlots_Min (MemorySlots (Guest (Spec r)))
             = MemorySlots_Min (MemorySlots (Guest (Spec b)))
         \<and> MemorySlots_Max (MemorySlots (Guest (Spec r)))
             = MemorySlots_Max (MemorySlots (Guest (Spec b))) \<longrightarrow>
         ValidateUpdate GetSwapInfo r (IsVirtualMachine b)
           = Returns (None, Some (ErrorText ''.spec.guest.memoryProvider is immutable'')))"
proof
  assume differs: "MemoryProvider (Guest (Spec r)) \<noteq> MemoryProvider (Guest (Spec b))"
  let ?getter = "\<lambda>v :: ('c, 'm, 'o) VirtualMachine.
                   AnyMemoryProvider (MemoryProvider (Guest (Spec v))) :: ('c, 'm, 'o) any"
  have entry: "(''.spec.guest.memoryProvider'', ?getter) \<in> set immutableFields"
    by (simp add: immutableFields_def)
  have "?getter r \<noteq> ?getter b"
    using differs by simp
  with entry obtain fieldName getter
    where found: "find (\<lambda>(n, g). g r \<noteq> g b) immutableFields = Some (fieldName, getter)"
      and listed: "(fieldName, getter) \<in> set immutableFields"
      and changed: "getter r \<noteq> getter b"
    using changed_has_first [of "''.spec.guest.memoryProvider''" ?getter immutableFields r b]
    by blast
  have some: "\<exists>fieldName getter.
        (fieldName, getter) \<in> set immutableFields
        \<and> getter r \<noteq> getter b
        \<and> ValidateUpdate GetSwapInfo r (IsVirtualMachine b)
            = Returns (None, Some (ErrorText (fieldName @ '' is immutable'')))"
    using ValidateUpdate_first_changed [OF found, of GetSwapInfo] listed changed by blast
  have named: "ValidateUpdate GetSwapInfo r (IsVirtualMachine b)
           = Returns (None, Some (ErrorText ''.spec.guest.memoryProvider is immutable''))"
    if "CPUs_Min (CPUs (Guest (Spec r))) = CPUs_Min (CPUs (Guest (Spec b)))
         \<and> CPUs_Max (CPUs (Guest (Spec r))) = CPUs_Max (CPUs (Guest (Spec b)))
         \<and> MemorySlots_Min (MemorySlots (Guest (Spec r)))
             = MemorySlots_Min (MemorySlots (Guest (Spec b)))
         \<and> MemorySlots_Max (MemorySlots (Guest (Spec r)))
             = MemorySlots_Max (MemorySlots (Guest (Spec b)))"
  proof -
    have "\<exists>getter. find (\<lambda>(n, g). g r \<noteq> g b) immutableFields
            = Some (''.spec.guest.memoryProvider'', getter)"
      using that differs by (simp add: immutableFields_def)
    then obtain getter' where "find (\<lambda>(n, g). g r \<noteq> g b) immutableFields
            = Some (''.spec.guest.memoryProvider'', getter')"
      by blast
    from ValidateUpdate_first_changed [OF this, of GetSwapInfo] show ?thesis by simp
  qed
  from some named show
    "(\<exists>fieldName getter.
        (fieldName, getter) \<in> set immutableFields
        \<and> getter r \<noteq> getter b
        \<and> ValidateUpdate GetSwapInfo r (IsVirtualMachine b)
            = Returns (None, Some (ErrorText (fieldName @ '' is immutable''))))
     \<and> (CPUs_Min (CPUs (Guest (Spec r))) = CPUs_Min (CPUs (Guest (Spec b)))
         \<and> CPUs_Max (CPUs (Guest (Spec r))) = CPUs_Max (CPUs (Guest (Spec b)))
         \<and> MemorySlots_Min (MemorySlots (Guest (Spec r)))
             = MemorySlots_Min (MemorySlots (Guest (Spec b)))
         \<and> MemorySlots_Max (MemorySlots (Guest (Spec r)))
             = MemorySlots_Max (MemorySlots (Guest (Spec b))) \<longrightarrow>
         ValidateUpdate GetSwapInfo r (IsVirtualMachine b)
           = Returns (None, Some (ErrorText ''.spec.guest.memoryProvider is immutable'')))"
    by blast
qed

theorem memoryProvider_is_immutable_witness:
  "MemoryProvider (Guest (Spec (with_memory_provider (Some ''B'') sample_vm)))
     \<noteq> MemoryProvider (Guest (Spec (with_memory_provider (Some ''A'') sample_vm)))
   \<and> ValidateUpdate sample_GetSwapInfo (with_memory_provider (Some ''B'') sample_vm)
        (IsVirtualMachine (with_memory_provider (Some ''A'') sample_vm))
       = Returns (None, Some (ErrorText ''.spec.guest.memoryProvider is immutable''))"
proof -
  have differs: "MemoryProvider (Guest (Spec (with_memory_provider (Some ''B'') sample_vm)))
     \<noteq> MemoryProvider (Guest (Spec (with_memory_provider (Some ''A'') sample_vm)))"
    by (simp add: with_memory_provider_def)
  show ?thesis
    using differs
      memoryProvider_is_immutable
        [where r = "with_memory_provider (Some ''B'') sample_vm"
          and b = "with_memory_provider (Some ''A'') sample_vm"
          and GetSwapInfo = sample_GetSwapInfo]
    by (simp add: with_memory_provider_def)
qed

end
